theory Spec2Isabelle
  imports Complex_Main "HOL-Library.Sublist"
begin

section \<open>Strings of the runtime\<close>

text \<open>
  A Python \<open>str\<close> is a sequence of Unicode code points; it is modelled as a list of
  code points. \<open>ascii\<close> writes an ASCII literal as such a list.
\<close>

type_synonym ustr = "nat list"

definition ascii :: "string \<Rightarrow> ustr" where
  "ascii s = map of_char s"

definition SPACE :: nat where "SPACE = 32"
definition NEWLINE :: nat where "NEWLINE = 10"
definition PLUS :: nat where "PLUS = 43"
definition COMMA :: nat where "COMMA = 44"
definition HYPHEN :: nat where "HYPHEN = 45"
definition PERIOD :: nat where "PERIOD = 46"
definition MINUS_SIGN :: nat where "MINUS_SIGN = 8722"
definition TENGE :: nat where "TENGE = 8376"

text \<open>
  \<open>str.isspace\<close> and the class \<open>\s\<close> of \<open>re\<close> on \<open>str\<close> patterns agree: the
  Unicode whitespace code points.
\<close>

definition is_space :: "nat \<Rightarrow> bool" where
  "is_space c \<longleftrightarrow>
     (9 \<le> c \<and> c \<le> 13) \<or> (28 \<le> c \<and> c \<le> 32) \<or> c = 133 \<or> c = 160 \<or> c = 5760 \<or>
     (8192 \<le> c \<and> c \<le> 8202) \<or> c = 8232 \<or> c = 8233 \<or> c = 8239 \<or> c = 8287 \<or> c = 12288"

text \<open>The ASCII digits, the range \<open>0-9\<close> of a character class.\<close>

definition is_digit :: "nat \<Rightarrow> bool" where
  "is_digit c \<longleftrightarrow> 48 \<le> c \<and> c \<le> 57"

text \<open>\<open>s.strip()\<close>: leading and trailing whitespace removed.\<close>

definition strip :: "ustr \<Rightarrow> ustr" where
  "strip s = rev (dropWhile is_space (rev (dropWhile is_space s)))"

text \<open>\<open>s.replace(old, new)\<close> for a one-character \<open>old\<close>.\<close>

definition replace1 :: "nat \<Rightarrow> ustr \<Rightarrow> ustr \<Rightarrow> ustr" where
  "replace1 old new s = concat (map (\<lambda>c. if c = old then new else [c]) s)"

text \<open>
  \<open>s.find(sub)\<close>: the lowest index at which \<open>sub\<close> occurs in \<open>s\<close>, \<open>None\<close> for
  Python's \<open>-1\<close>. \<open>sub in s\<close> is \<open>find_sub sub s \<noteq> None\<close>.
\<close>

primrec find_sub :: "ustr \<Rightarrow> ustr \<Rightarrow> nat option" where
  "find_sub sub [] = (if sub = [] then Some 0 else None)"
| "find_sub sub (c # cs) =
     (if prefix sub (c # cs) then Some 0 else map_option Suc (find_sub sub cs))"

definition py_in :: "ustr \<Rightarrow> ustr \<Rightarrow> bool" where
  "py_in sub s \<longleftrightarrow> find_sub sub s \<noteq> None"

text \<open>\<open>re.sub(r"\s+", " ", s)\<close>: every maximal run of whitespace becomes one space.\<close>

function collapse_ws :: "ustr \<Rightarrow> ustr" where
  "collapse_ws [] = []"
| "collapse_ws (c # cs) =
     (if is_space c then SPACE # collapse_ws (dropWhile is_space cs) else c # collapse_ws cs)"
  by pat_completeness auto
termination
  by (relation "measure length") (auto simp: length_dropWhile_le less_Suc_eq_le)

text \<open>\<open>s.split(sep)\<close> for a one-character \<open>sep\<close>: the pieces between separators.\<close>

fun split1 :: "nat \<Rightarrow> ustr \<Rightarrow> ustr list" where
  "split1 sep [] = [[]]"
| "split1 sep (c # cs) =
     (if c = sep then [] # split1 sep cs
      else (case split1 sep cs of [] \<Rightarrow> [[c]] | p # ps \<Rightarrow> (c # p) # ps))"

text \<open>\<open>" ".join(parts)\<close>.\<close>

fun join_sp :: "ustr list \<Rightarrow> ustr" where
  "join_sp [] = []"
| "join_sp [x] = x"
| "join_sp (x # y # ys) = x @ SPACE # join_sp (y # ys)"

section \<open>Exceptions and decimals of the runtime\<close>

datatype exn = ValueError | InvalidOperation | IndexError

text \<open>
  A finite \<open>decimal.Decimal\<close>: sign, coefficient and exponent, of value
  \<open>\<plusminus> dcoeff * 10 ^ dexp\<close>. Construction from a string is exact. \<open>abs\<close> and unary
  minus are modelled without the rounding to the context precision (28 significant
  digits by default), which is the identity on coefficients of at most 28 digits.
\<close>

record decimal =
  dneg :: bool
  dcoeff :: nat
  dexp :: int

definition dec_value :: "decimal \<Rightarrow> rat" where
  "dec_value d =
     (if dneg d then - 1 else 1) * of_nat (dcoeff d) *
     (if 0 \<le> dexp d then 10 ^ nat (dexp d) else 1 / 10 ^ nat (- dexp d))"

definition dec_zero :: decimal where
  "dec_zero = \<lparr>dneg = False, dcoeff = 0, dexp = 0\<rparr>"

text \<open>\<open>d < 0\<close> and \<open>d > 0\<close> on a \<open>Decimal\<close> compare values; a signed zero is zero.\<close>

definition dec_lt0 :: "decimal \<Rightarrow> bool" where
  "dec_lt0 d \<longleftrightarrow> dneg d \<and> dcoeff d \<noteq> 0"

definition dec_gt0 :: "decimal \<Rightarrow> bool" where
  "dec_gt0 d \<longleftrightarrow> \<not> dneg d \<and> dcoeff d \<noteq> 0"

definition dec_abs :: "decimal \<Rightarrow> decimal" where
  "dec_abs d = d\<lparr>dneg := False\<rparr>"

text \<open>Unary minus: the sign flipped, a zero result being positive.\<close>

definition dec_neg :: "decimal \<Rightarrow> decimal" where
  "dec_neg d = (if dcoeff d = 0 then d\<lparr>dneg := False\<rparr> else d\<lparr>dneg := \<not> dneg d\<rparr>)"

text \<open>The value of a digit string, most significant digit first.\<close>

definition digits_value :: "ustr \<Rightarrow> nat" where
  "digits_value ds = foldl (\<lambda>n c. 10 * n + (c - 48)) 0 ds"

text \<open>
  \<open>Decimal(s)\<close> on the strings its callers build, which hold only ASCII digits,
  periods and signs: an optional sign, then digits with at most one period and at
  least one digit. Anything else raises \<open>InvalidOperation\<close>. (The exponent and
  special-value forms need letters, which the callers have removed.)
\<close>

definition unsigned_decimal :: "bool \<Rightarrow> ustr \<Rightarrow> exn + decimal" where
  "unsigned_decimal neg s =
     (let ip = takeWhile (\<lambda>c. c \<noteq> PERIOD) s;
          rest = dropWhile (\<lambda>c. c \<noteq> PERIOD) s;
          fp = (case rest of [] \<Rightarrow> [] | _ # t \<Rightarrow> t)
      in if list_all is_digit ip \<and> list_all is_digit fp \<and> ip @ fp \<noteq> []
         then Inr \<lparr>dneg = neg, dcoeff = digits_value (ip @ fp), dexp = - int (length fp)\<rparr>
         else Inl InvalidOperation)"

definition Decimal :: "ustr \<Rightarrow> exn + decimal" where
  "Decimal s =
     (case s of
        [] \<Rightarrow> Inl InvalidOperation
      | c # cs \<Rightarrow>
          if c = HYPHEN then unsigned_decimal True cs
          else if c = PLUS then unsigned_decimal False cs
          else unsigned_decimal False s)"


section \<open>Dates of the runtime\<close>

record pydate =
  year :: nat
  month :: nat
  day :: nat

datatype datefmt = DMY4 | DMY2

definition is_leap :: "nat \<Rightarrow> bool" where
  "is_leap y \<longleftrightarrow> y mod 4 = 0 \<and> (y mod 100 \<noteq> 0 \<or> y mod 400 = 0)"

definition days_in_month :: "nat \<Rightarrow> nat \<Rightarrow> nat" where
  "days_in_month y m =
     (if m = 2 then (if is_leap y then 29 else 28)
      else if m = 4 \<or> m = 6 \<or> m = 9 \<or> m = 11 then 30 else 31)"

text \<open>
  The directives of \<open>datetime.strptime\<close>, on ASCII digits:
  \<open>%d\<close> is \<open>3[0-1]|[1-2]\d|0[1-9]|[1-9]| [1-9]\<close>, \<open>%m\<close> is \<open>1[0-2]|0[1-9]|[1-9]\<close>,
  \<open>%Y\<close> is four digits and \<open>%y\<close> two digits (00-68 in 2000, 69-99 in 1900).
\<close>

definition nonzero_digit :: "nat \<Rightarrow> bool" where
  "nonzero_digit c \<longleftrightarrow> 49 \<le> c \<and> c \<le> 57"

definition day_token :: "ustr \<Rightarrow> nat option" where
  "day_token t =
     (case t of
        [a] \<Rightarrow> if nonzero_digit a then Some (a - 48) else None
      | [a, b] \<Rightarrow>
          if a = 51 \<and> (b = 48 \<or> b = 49) then Some (30 + (b - 48))
          else if (a = 49 \<or> a = 50) \<and> is_digit b then Some (10 * (a - 48) + (b - 48))
          else if (a = 48 \<or> a = SPACE) \<and> nonzero_digit b then Some (b - 48)
          else None
      | _ \<Rightarrow> None)"

definition month_token :: "ustr \<Rightarrow> nat option" where
  "month_token t =
     (case t of
        [a] \<Rightarrow> if nonzero_digit a then Some (a - 48) else None
      | [a, b] \<Rightarrow>
          if a = 49 \<and> 48 \<le> b \<and> b \<le> 50 then Some (10 + (b - 48))
          else if a = 48 \<and> nonzero_digit b then Some (b - 48)
          else None
      | _ \<Rightarrow> None)"

definition year_token :: "datefmt \<Rightarrow> ustr \<Rightarrow> nat option" where
  "year_token fmt t =
     (case fmt of
        DMY4 \<Rightarrow> if length t = 4 \<and> list_all is_digit t then Some (digits_value t) else None
      | DMY2 \<Rightarrow>
          if length t = 2 \<and> list_all is_digit t
          then Some (let y = digits_value t in if y \<le> 68 then 2000 + y else 1900 + y)
          else None)"

text \<open>
  \<open>datetime.strptime(s, "%d.%m.%Y")\<close> (\<open>DMY4\<close>) and \<open>datetime.strptime(s, "%d.%m.%y")\<close>
  (\<open>DMY2\<close>): \<open>None\<close> stands for the \<open>ValueError\<close> raised when the string does not
  match the format, when data remains after it, or when the date does not exist.
\<close>

definition strptime :: "datefmt \<Rightarrow> ustr \<Rightarrow> pydate option" where
  "strptime fmt s =
     (case dropWhile (\<lambda>c. c \<noteq> PERIOD) s of
        [] \<Rightarrow> None
      | _ # r1 \<Rightarrow>
          (case dropWhile (\<lambda>c. c \<noteq> PERIOD) r1 of
             [] \<Rightarrow> None
           | _ # r2 \<Rightarrow>
               (case (day_token (takeWhile (\<lambda>c. c \<noteq> PERIOD) s),
                      month_token (takeWhile (\<lambda>c. c \<noteq> PERIOD) r1),
                      year_token fmt r2) of
                  (Some d, Some m, Some y) \<Rightarrow>
                    if 1 \<le> y \<and> d \<le> days_in_month y m
                    then Some \<lparr>year = y, month = m, day = d\<rparr> else None
                | _ \<Rightarrow> None)))"

section \<open>The environment: configuration and case mappings\<close>

text \<open>
  The groups of a match of \<open>TX_HEAD_RE\<close>; \<open>details\<close> is \<open>None\<close> when the group took
  no part in the match.
\<close>

record head_match =
  g_date :: ustr
  g_amount :: ustr
  g_currency :: ustr
  g_operation :: ustr
  g_details :: "ustr option"

text \<open>
  What the modules import and this development takes as given: the constants of the
  configuration module, and the Unicode case mappings \<open>str.lower\<close> and
  \<open>str.capitalize\<close>. \<open>DATE_START_RE\<close> tells whether the pattern matches at the start of
  a line, \<open>TX_HEAD_RE\<close> gives the groups of its match, and a noise pattern \<open>p\<close> is given
  by the substitution \<open>re.sub(p, "", text, flags=re.IGNORECASE)\<close> it induces.
\<close>

record env =
  str_lower :: "ustr \<Rightarrow> ustr"
  str_capitalize :: "ustr \<Rightarrow> ustr"
  DATE_START_RE :: "ustr \<Rightarrow> bool"
  TX_HEAD_RE :: "ustr \<Rightarrow> head_match option"
  KNOWN_OPERATIONS :: "ustr list"
  FOOTER_MARKERS :: "ustr list"
  NOISE_PATTERNS :: "(ustr \<Rightarrow> ustr) list"

section \<open>cleaner.py\<close>

fun strip_footer_loop :: "ustr list \<Rightarrow> ustr \<Rightarrow> ustr \<Rightarrow> ustr" where
  "strip_footer_loop [] low text = text"
| "strip_footer_loop (marker # ms) low text =
     (case find_sub marker low of
        Some idx \<Rightarrow> take idx text
      | None \<Rightarrow> strip_footer_loop ms low text)"

definition strip_footer :: "env \<Rightarrow> ustr \<Rightarrow> ustr" where
  "strip_footer E text = strip_footer_loop (FOOTER_MARKERS E) (str_lower E text) text"

definition clean_description :: "env \<Rightarrow> ustr \<Rightarrow> ustr" where
  "clean_description E text =
     strip (collapse_ws (foldl (\<lambda>t p. p t) (strip_footer E text) (NOISE_PATTERNS E)))"

section \<open>Transaction records\<close>

datatype direction = Income | Expense | Neutral

datatype transfer_type = Self | Family | Other

datatype source = Freedom | Kaspi

text \<open>
  The dictionary an extractor builds. The head-line decoders set no \<open>source\<close> key:
  \<open>tx_source\<close> is \<open>None\<close> until an entry point tags the record.
\<close>

record tx =
  tx_date :: pydate
  tx_amount :: decimal
  tx_currency :: ustr
  tx_operation :: ustr
  tx_description :: ustr
  tx_direction :: direction
  tx_transfer_type :: "transfer_type option"
  tx_source :: "source option"

text \<open>
  The conditional expression
  \<open>"expense" if amount < 0 else "income" if amount > 0 else "neutral"\<close>.
\<close>

definition direction_of :: "decimal \<Rightarrow> direction" where
  "direction_of amount =
     (if dec_lt0 amount then Expense else if dec_gt0 amount then Income else Neutral)"

text \<open>The literals of the sources, as code points.\<close>

definition POKUPKA :: ustr where
  "POKUPKA = [1055, 1086, 1082, 1091, 1087, 1082, 1072]"

definition KZT :: ustr where
  "KZT = [75, 90, 84]"

definition DATA :: ustr where
  "DATA = [1076, 1072, 1090, 1072]"

definition SUMM :: ustr where
  "SUMM = [1089, 1091, 1084, 1084]"

definition OPERATS :: ustr where
  "OPERATS = [1086, 1087, 1077, 1088, 1072, 1094]"

definition DETAL :: ustr where
  "DETAL = [1076, 1077, 1090, 1072, 1083]"

section \<open>freedom\_parser.py and parser.py\<close>

text \<open>
  \<open>_to_decimal\<close>, which the two modules define with the same body. The substitution
  \<open>re.sub(r"[^0-9\.\-]", "", v)\<close> keeps the ASCII digits, the period and the hyphen.
\<close>

definition to_decimal_text :: "ustr \<Rightarrow> ustr" where
  "to_decimal_text v0 =
     (let v = replace1 SPACE [] (replace1 MINUS_SIGN [HYPHEN] v0);
          v = (if PERIOD \<in> set v \<and> COMMA \<in> set v then replace1 COMMA [] v
               else replace1 COMMA [PERIOD] v)
      in filter (\<lambda>c. is_digit c \<or> c = PERIOD \<or> c = HYPHEN) v)"

definition to_decimal :: "ustr \<Rightarrow> exn + decimal" where
  "to_decimal v0 = (let v = to_decimal_text v0 in Decimal (if v = [] then [48] else v))"

text \<open>\<open>raw_amount.startswith(("\<minus>", "-"))\<close>.\<close>

definition starts_with_minus :: "ustr \<Rightarrow> bool" where
  "starts_with_minus raw \<longleftrightarrow> (case raw of [] \<Rightarrow> False | c # _ \<Rightarrow> c = MINUS_SIGN \<or> c = HYPHEN)"

text \<open>
  \<open>op.capitalize()\<close> followed by the membership test in \<open>KNOWN_OPERATIONS\<close>, in both
  head-line decoders.
\<close>

definition known_operation :: "env \<Rightarrow> ustr \<Rightarrow> ustr" where
  "known_operation E token =
     (let operation = str_capitalize E token
      in if operation \<in> set (KNOWN_OPERATIONS E) then operation else POKUPKA)"

text \<open>
  \<open>freedom_parser._parse_head_line\<close>. \<open>Inr None\<close> is the return of \<open>None\<close>; \<open>Inl e\<close>
  is an exception leaving the function: \<open>datetime.strptime\<close> and \<open>Decimal\<close> are
  called outside any \<open>try\<close>.
\<close>

definition parse_head_line :: "env \<Rightarrow> ustr \<Rightarrow> exn + tx option" where
  "parse_head_line E line =
     (case TX_HEAD_RE E line of
        None \<Rightarrow> Inr None
      | Some m \<Rightarrow>
          (case strptime DMY4 (g_date m) of
             None \<Rightarrow> Inl ValueError
           | Some date \<Rightarrow>
               (case to_decimal (g_amount m) of
                  Inl e \<Rightarrow> Inl e
                | Inr a \<Rightarrow>
                    (let amount = (if starts_with_minus (g_amount m) then dec_neg (dec_abs a)
                                   else dec_abs a)
                     in Inr (Some
                       \<lparr>tx_date = date, tx_amount = amount, tx_currency = g_currency m,
                        tx_operation = known_operation E (g_operation m),
                        tx_description = (case g_details m of None \<Rightarrow> [] | Some d \<Rightarrow> d),
                        tx_direction = direction_of amount,
                        tx_transfer_type = None, tx_source = None\<rparr>)))))"

text \<open>
  \<open>parser._parse_head\<close>: the sign is forced only under a leading minus, and the
  direction is the literal \<open>"expense"\<close>.
\<close>

definition parse_head :: "env \<Rightarrow> ustr \<Rightarrow> exn + tx option" where
  "parse_head E line =
     (case TX_HEAD_RE E line of
        None \<Rightarrow> Inr None
      | Some m \<Rightarrow>
          (case strptime DMY4 (g_date m) of
             None \<Rightarrow> Inl ValueError
           | Some date \<Rightarrow>
               (case to_decimal (g_amount m) of
                  Inl e \<Rightarrow> Inl e
                | Inr a \<Rightarrow>
                    (let amount = (if starts_with_minus (g_amount m) then dec_neg (dec_abs a)
                                   else a)
                     in Inr (Some
                       \<lparr>tx_date = date, tx_amount = amount, tx_currency = g_currency m,
                        tx_operation = known_operation E (g_operation m),
                        tx_description = (case g_details m of None \<Rightarrow> [] | Some d \<Rightarrow> d),
                        tx_direction = Expense,
                        tx_transfer_type = None, tx_source = None\<rparr>)))))"

text \<open>
  \<open>_parse_page\<close>, the same loop in both modules up to the decoder it calls. The state
  is the list \<open>txs\<close> and the open block \<open>current\<close>; \<open>flush\<close> is the nested function.
\<close>

definition flush :: "env \<Rightarrow> tx list \<times> tx option \<Rightarrow> tx list \<times> tx option" where
  "flush E st =
     (case snd st of
        None \<Rightarrow> st
      | Some current \<Rightarrow>
          (fst st @ [current\<lparr>tx_description := clean_description E (tx_description current)\<rparr>],
           None))"

fun page_loop ::
  "env \<Rightarrow> (ustr \<Rightarrow> exn + tx option) \<Rightarrow> tx list \<times> tx option \<Rightarrow> ustr list \<Rightarrow> exn + tx list" where
  "page_loop E decode st [] = Inr (fst (flush E st))"
| "page_loop E decode st (line # lines) =
     (if DATE_START_RE E line then
        (case decode line of
           Inl e \<Rightarrow> Inl e
         | Inr head \<Rightarrow> page_loop E decode (fst (flush E st), head) lines)
      else
        page_loop E decode
          (fst st, map_option (\<lambda>c. c\<lparr>tx_description := tx_description c @ SPACE # line\<rparr>) (snd st))
          lines)"

definition parse_page :: "env \<Rightarrow> ustr list \<Rightarrow> exn + tx list" where
  "parse_page E lines = page_loop E (parse_head_line E) ([], None) lines"

definition parser_parse_page :: "env \<Rightarrow> ustr list \<Rightarrow> exn + tx list" where
  "parser_parse_page E lines = page_loop E (parse_head E) ([], None) lines"

text \<open>\<open>[l.strip() for l in text.split("\n") if l.strip()]\<close>.\<close>

definition page_lines :: "ustr \<Rightarrow> ustr list" where
  "page_lines text = map strip (filter (\<lambda>l. strip l \<noteq> []) (split1 NEWLINE text))"

text \<open>
  The loop over the pages of a document, a page being what \<open>extract_text\<close> returned
  (\<open>None\<close> or a string); an exception of a page ends the loop.
\<close>

fun pages_loop :: "(ustr list \<Rightarrow> exn + tx list) \<Rightarrow> ustr option list \<Rightarrow> exn + tx list" where
  "pages_loop page [] = Inr []"
| "pages_loop page (text # pages) =
     (case text of
        None \<Rightarrow> pages_loop page pages
      | Some t \<Rightarrow>
          if t = [] then pages_loop page pages
          else
            (case page (page_lines t) of
               Inl e \<Rightarrow> Inl e
             | Inr txs \<Rightarrow>
                 (case pages_loop page pages of
                    Inl e \<Rightarrow> Inl e
                  | Inr rest \<Rightarrow> Inr (txs @ rest))))"

definition parse_freedom_pdf :: "env \<Rightarrow> ustr option list \<Rightarrow> exn + tx list" where
  "parse_freedom_pdf E pages =
     (case pages_loop (parse_page E) pages of
        Inl e \<Rightarrow> Inl e
      | Inr txs \<Rightarrow> Inr (map (\<lambda>t. t\<lparr>tx_source := Some Freedom\<rparr>) txs))"

definition parse_pdf :: "env \<Rightarrow> ustr option list \<Rightarrow> exn + tx list" where
  "parse_pdf E pages = pages_loop (parser_parse_page E) pages"

section \<open>kaspi\_parser.py\<close>

text \<open>\<open>_parse_date\<close>: the \<open>try\<close> turns the \<open>ValueError\<close> of \<open>strptime\<close> into \<open>None\<close>.\<close>

definition parse_date :: "ustr \<Rightarrow> pydate option" where
  "parse_date v = strptime DMY2 (strip v)"

text \<open>
  \<open>_parse_amount\<close>. The substitution \<open>re.sub(r"[^0-9\.\-\+]", "", v)\<close> keeps the ASCII
  digits, the period, the hyphen and the plus sign.
\<close>

definition parse_amount_text :: "ustr \<Rightarrow> ustr" where
  "parse_amount_text v0 =
     filter (\<lambda>c. is_digit c \<or> c = PERIOD \<or> c = HYPHEN \<or> c = PLUS)
       (replace1 COMMA [PERIOD] (replace1 SPACE [] (replace1 TENGE [] v0)))"

definition parse_amount :: "ustr \<Rightarrow> exn + decimal" where
  "parse_amount v0 = (let v = parse_amount_text v0 in Decimal (if v = [] then [48] else v))"

definition looks_like_header :: "env \<Rightarrow> ustr list \<Rightarrow> bool" where
  "looks_like_header E row =
     (let joined = join_sp (map (str_lower E) (filter (\<lambda>cell. cell \<noteq> []) row))
      in py_in DATA joined \<and> py_in SUMM joined \<and> py_in OPERATS joined)"

text \<open>\<open>re.match(r"\d{2}\.\d{2}\.\d{2}", s)\<close>, on ASCII digits.\<close>

definition date_prefix :: "ustr \<Rightarrow> bool" where
  "date_prefix s =
     (case s of
        a # b # p # c # d # q # e # f # _ \<Rightarrow>
          is_digit a \<and> is_digit b \<and> p = PERIOD \<and> is_digit c \<and> is_digit d \<and> q = PERIOD \<and>
          is_digit e \<and> is_digit f
      | _ \<Rightarrow> False)"

definition looks_like_transaction_row :: "ustr list \<Rightarrow> bool" where
  "looks_like_transaction_row row =
     (case row of [] \<Rightarrow> False | c0 # _ \<Rightarrow> c0 \<noteq> [] \<and> date_prefix (strip c0))"

text \<open>The column indices carried by \<open>parse_kaspi_pdf\<close>; \<open>None\<close> is Python's \<open>None\<close>.\<close>

record cols =
  idx_date :: "nat option"
  idx_amount :: "nat option"
  idx_operation :: "nat option"
  idx_details :: "nat option"

definition no_cols :: cols where
  "no_cols = \<lparr>idx_date = None, idx_amount = None, idx_operation = None, idx_details = None\<rparr>"

text \<open>The \<open>if\<close>/\<open>elif\<close> chain on one cell of a header row, at index \<open>i\<close>.\<close>

definition learn_cell :: "env \<Rightarrow> nat \<Rightarrow> ustr \<Rightarrow> cols \<Rightarrow> cols" where
  "learn_cell E i cell c =
     (let low = str_lower E cell
      in if py_in DATA low then c\<lparr>idx_date := Some i\<rparr>
         else if py_in SUMM low then c\<lparr>idx_amount := Some i\<rparr>
         else if py_in OPERATS low then c\<lparr>idx_operation := Some i\<rparr>
         else if py_in DETAL low then c\<lparr>idx_details := Some i\<rparr>
         else c)"

text \<open>\<open>for i, cell in enumerate(row)\<close> over the cells from index \<open>i\<close> on.\<close>

fun learn_header :: "env \<Rightarrow> nat \<Rightarrow> ustr list \<Rightarrow> cols \<Rightarrow> cols" where
  "learn_header E i [] c = c"
| "learn_header E i (cell # cells) c = learn_header E (Suc i) cells (learn_cell E i cell c)"

text \<open>\<open>row[i]\<close> for an index that is not negative.\<close>

definition getitem :: "ustr list \<Rightarrow> nat \<Rightarrow> exn + ustr" where
  "getitem row i = (if i < length row then Inr (row ! i) else Inl IndexError)"

text \<open>
  The body of the \<open>try\<close>, for known date, amount and operation indices: \<open>Inl e\<close> is an
  exception raised in it, \<open>Inr None\<close> the \<open>continue\<close> on a date that does not parse,
  \<open>Inr (Some tx)\<close> the record appended.
\<close>

definition decode_row ::
  "env \<Rightarrow> nat \<Rightarrow> nat \<Rightarrow> nat \<Rightarrow> nat option \<Rightarrow> ustr list \<Rightarrow> exn + tx option" where
  "decode_row E i_date i_amount i_operation i_details row =
     (case getitem row i_date of
        Inl e \<Rightarrow> Inl e
      | Inr date_cell \<Rightarrow>
          (case parse_date date_cell of
             None \<Rightarrow> Inr None
           | Some date \<Rightarrow>
               (case getitem row i_amount of
                  Inl e \<Rightarrow> Inl e
                | Inr amount_cell \<Rightarrow>
                    (case parse_amount amount_cell of
                       Inl e \<Rightarrow> Inl e
                     | Inr amount \<Rightarrow>
                         (case getitem row i_operation of
                            Inl e \<Rightarrow> Inl e
                          | Inr operation_cell \<Rightarrow>
                              (case (case i_details of None \<Rightarrow> Inr [] | Some k \<Rightarrow> getitem row k) of
                                 Inl e \<Rightarrow> Inl e
                               | Inr description \<Rightarrow>
                                   Inr (Some
                                     \<lparr>tx_date = date, tx_amount = amount, tx_currency = KZT,
                                      tx_operation = str_capitalize E operation_cell,
                                      tx_description = clean_description E description,
                                      tx_direction = direction_of amount,
                                      tx_transfer_type = None,
                                      tx_source = Some Kaspi\<rparr>)))))))"

text \<open>\<open>[(cell or "").strip() for cell in row]\<close>.\<close>

definition normalize_row :: "ustr option list \<Rightarrow> ustr list" where
  "normalize_row row = map (\<lambda>cell. strip (case cell of None \<Rightarrow> [] | Some s \<Rightarrow> s)) row"

text \<open>
  One turn of the loop over the rows of a table: the column indices after the row and
  the records it appends. \<open>except Exception: continue\<close> is the branch that maps an
  exception of the \<open>try\<close> body to no record.
\<close>

definition kaspi_row :: "env \<Rightarrow> cols \<Rightarrow> ustr option list \<Rightarrow> cols \<times> tx list" where
  "kaspi_row E c raw =
     (let row = normalize_row raw
      in if looks_like_header E row then (learn_header E 0 row c, [])
         else
           (case (idx_date c, idx_amount c, idx_operation c) of
              (Some i_date, Some i_amount, Some i_operation) \<Rightarrow>
                if \<not> looks_like_transaction_row row then (c, [])
                else
                  (case decode_row E i_date i_amount i_operation (idx_details c) row of
                     Inl e \<Rightarrow> (c, [])
                   | Inr None \<Rightarrow> (c, [])
                   | Inr (Some t) \<Rightarrow> (c, [t]))
            | _ \<Rightarrow> (c, [])))"

fun kaspi_rows :: "env \<Rightarrow> cols \<Rightarrow> ustr option list list \<Rightarrow> cols \<times> tx list" where
  "kaspi_rows E c [] = (c, [])"
| "kaspi_rows E c (row # rows) =
     (let (c1, txs1) = kaspi_row E c row; (c2, txs2) = kaspi_rows E c1 rows
      in (c2, txs1 @ txs2))"

text \<open>
  The loop over the pages, a page being what \<open>extract_table\<close> returned (\<open>None\<close> or a
  list of rows); a page without a table is skipped.
\<close>

fun kaspi_pages :: "env \<Rightarrow> cols \<Rightarrow> ustr option list list option list \<Rightarrow> cols \<times> tx list" where
  "kaspi_pages E c [] = (c, [])"
| "kaspi_pages E c (table # pages) =
     (case table of
        None \<Rightarrow> kaspi_pages E c pages
      | Some rows \<Rightarrow>
          (let (c1, txs1) = kaspi_rows E c rows; (c2, txs2) = kaspi_pages E c1 pages
           in (c2, txs1 @ txs2)))"

definition parse_kaspi_pdf :: "env \<Rightarrow> ustr option list list option list \<Rightarrow> tx list" where
  "parse_kaspi_pdf E pages = snd (kaspi_pages E no_cols pages)"

section \<open>A concrete environment\<close>

text \<open>
  The case mappings on the Basic Latin and the Cyrillic letters, where \<open>str.lower\<close>
  and \<open>str.capitalize\<close> act letter by letter. They instantiate the environment at the
  concrete inputs below; the general theorems hold for every environment.
\<close>

definition basic_lower_cp :: "nat \<Rightarrow> nat" where
  "basic_lower_cp c =
     (if (65 \<le> c \<and> c \<le> 90) \<or> (1040 \<le> c \<and> c \<le> 1071) then c + 32
      else if 1024 \<le> c \<and> c \<le> 1039 then c + 80 else c)"

definition basic_upper_cp :: "nat \<Rightarrow> nat" where
  "basic_upper_cp c =
     (if (97 \<le> c \<and> c \<le> 122) \<or> (1072 \<le> c \<and> c \<le> 1103) then c - 32
      else if 1104 \<le> c \<and> c \<le> 1119 then c - 80 else c)"

definition basic_lower :: "ustr \<Rightarrow> ustr" where
  "basic_lower s = map basic_lower_cp s"

definition basic_capitalize :: "ustr \<Rightarrow> ustr" where
  "basic_capitalize s = (case s of [] \<Rightarrow> [] | c # cs \<Rightarrow> basic_upper_cp c # map basic_lower_cp cs)"

definition PEREVOD :: ustr where
  "PEREVOD = [1055, 1077, 1088, 1077, 1074, 1086, 1076]"

text \<open>
  Modelled from the spec: the configuration module \<open>config\<close> (\<open>DATE_START_RE\<close>,
  \<open>TX_HEAD_RE\<close>, \<open>KNOWN_OPERATIONS\<close>, \<open>FOOTER_MARKERS\<close>, \<open>NOISE_PATTERNS\<close>) is not among the
  sources. The spec gives a transaction-start pattern, "a line beginning with a date
  token", and a fixed-shape head-line pattern with the groups date, amount, currency,
  operation and details, "details may be absent"; its example line is
  \<open>17.12.2025 -500,00 KZT ...\<close>. Here a line starts a transaction when it begins with
  two digits, a period, two digits, a period and four digits, and the head-line
  pattern takes the first four space-separated tokens of the line as date, amount,
  currency and operation, and the remaining tokens as details.
\<close>

definition sample_date_start :: "ustr \<Rightarrow> bool" where
  "sample_date_start line =
     (case line of
        a # b # p # c # d # q # e # f # g # h # _ \<Rightarrow>
          is_digit a \<and> is_digit b \<and> p = PERIOD \<and> is_digit c \<and> is_digit d \<and> q = PERIOD \<and>
          is_digit e \<and> is_digit f \<and> is_digit g \<and> is_digit h
      | _ \<Rightarrow> False)"

definition sample_tx_head :: "ustr \<Rightarrow> head_match option" where
  "sample_tx_head line =
     (case filter (\<lambda>w. w \<noteq> []) (split1 SPACE line) of
        d # a # c # operation # rest \<Rightarrow>
          Some \<lparr>g_date = d, g_amount = a, g_currency = c, g_operation = operation,
                g_details = (if rest = [] then None else Some (join_sp rest))\<rparr>
      | _ \<Rightarrow> None)"

definition sample_env :: env where
  "sample_env =
     \<lparr>str_lower = basic_lower, str_capitalize = basic_capitalize,
      DATE_START_RE = sample_date_start, TX_HEAD_RE = sample_tx_head,
      KNOWN_OPERATIONS = [PEREVOD, POKUPKA], FOOTER_MARKERS = [], NOISE_PATTERNS = []\<rparr>"

text \<open>
  The substitution \<open>re.sub(p, "", text, flags=re.IGNORECASE)\<close> for a pattern \<open>p\<close> that
  is a literal string of Basic Latin and Cyrillic letters: scanning from the left, every
  occurrence of \<open>p\<close>, compared in lower case, is removed, and the scan resumes after
  it. \<open>skip\<close> counts the characters of the current occurrence still to be dropped.
\<close>

fun literal_sub_from :: "ustr \<Rightarrow> nat \<Rightarrow> ustr \<Rightarrow> ustr" where
  "literal_sub_from p skip [] = []"
| "literal_sub_from p skip (c # cs) =
     (if 0 < skip then literal_sub_from p (skip - 1) cs
      else if p \<noteq> [] \<and> prefix (basic_lower p) (basic_lower (c # cs))
      then literal_sub_from p (length p - 1) cs
      else c # literal_sub_from p 0 cs)"

definition literal_sub :: "ustr \<Rightarrow> ustr \<Rightarrow> ustr" where
  "literal_sub p s = literal_sub_from p 0 s"

text \<open>
  The environment with one footer marker, \<open>footer\<close>, and one noise pattern, the
  literal \<open>noise\<close>.
\<close>

definition footer_noise_env :: env where
  "footer_noise_env =
     sample_env\<lparr>FOOTER_MARKERS := [ascii ''footer''],
                NOISE_PATTERNS := [literal_sub (ascii ''noise'')]\<rparr>"

text \<open>
  Rows of a format-B table: a header row with the cells \<open>Data\<close>, \<open>Summa\<close>,
  \<open>Operatsiya\<close>, \<open>Detali\<close> (in Cyrillic), a header row with the cells \<open>Operatsiya\<close>,
  \<open>Data\<close>, \<open>Summa\<close> and no details cell, two transaction rows with the records they
  decode to under the column indices of the first header, a row whose amount cell is a
  lone hyphen, and a row with the date cell only.
\<close>

definition HEADER_ROW :: "ustr option list" where
  "HEADER_ROW =
     [Some [1044, 1072, 1090, 1072], Some [1057, 1091, 1084, 1084, 1072],
      Some [1054, 1087, 1077, 1088, 1072, 1094, 1080, 1103],
      Some [1044, 1077, 1090, 1072, 1083, 1080]]"

definition HEADER_ROW_SHORT :: "ustr option list" where
  "HEADER_ROW_SHORT =
     [Some [1054, 1087, 1077, 1088, 1072, 1094, 1080, 1103], Some [1044, 1072, 1090, 1072],
      Some [1057, 1091, 1084, 1084, 1072]]"

definition ROW_A :: "ustr option list" where
  "ROW_A =
     [Some (ascii ''17.12.25''), Some (ascii ''-2 880,00 '' @ [TENGE]), Some (ascii ''pokupka''),
      Some (ascii ''Magnum  shop'')]"

definition ROW_B :: "ustr option list" where
  "ROW_B =
     [Some (ascii ''18.12.25''), Some (ascii ''+3 000,00 '' @ [TENGE]), Some (ascii ''popolnenie''),
      None]"

definition ROW_BAD_AMOUNT :: "ustr option list" where
  "ROW_BAD_AMOUNT = [Some (ascii ''19.12.25''), Some (ascii ''-''), Some (ascii ''x''), None]"

definition ROW_SHORT :: "ustr option list" where
  "ROW_SHORT = [Some (ascii ''19.12.25'')]"

definition TX_A :: tx where
  "TX_A =
     \<lparr>tx_date = \<lparr>year = 2025, month = 12, day = 17\<rparr>,
      tx_amount = \<lparr>dneg = True, dcoeff = 288000, dexp = - 2\<rparr>, tx_currency = KZT,
      tx_operation = ascii ''Pokupka'', tx_description = ascii ''Magnum shop'',
      tx_direction = Expense, tx_transfer_type = None, tx_source = Some Kaspi\<rparr>"

definition TX_B :: tx where
  "TX_B =
     \<lparr>tx_date = \<lparr>year = 2025, month = 12, day = 18\<rparr>,
      tx_amount = \<lparr>dneg = False, dcoeff = 300000, dexp = - 2\<rparr>, tx_currency = KZT,
      tx_operation = ascii ''Popolnenie'', tx_description = [],
      tx_direction = Income, tx_transfer_type = None, tx_source = Some Kaspi\<rparr>"

definition ALL_COLS :: cols where
  "ALL_COLS = \<lparr>idx_date = Some 0, idx_amount = Some 1, idx_operation = Some 2, idx_details = Some 3\<rparr>"

section \<open>Auxiliary notions of the proofs\<close>

text \<open>
  A string in which every whitespace character is a single space followed by a
  character that is not whitespace: the shape of the output of \<open>collapse_ws\<close>.
\<close>

fun tidy :: "ustr \<Rightarrow> bool" where
  "tidy [] = True"
| "tidy (c # cs) =
     ((if is_space c then c = SPACE \<and> (cs = [] \<or> \<not> is_space (hd cs)) else True) \<and> tidy cs)"

text \<open>
  The reading of \<open>strip_footer\<close> that truncates at the smallest index at which any
  marker occurs, whatever the order of the markers: the comparison term of the claim
  about the earliest marker position.
\<close>

definition earliest_marker :: "ustr list \<Rightarrow> ustr \<Rightarrow> nat option" where
  "earliest_marker markers low =
     (case List.map_filter (\<lambda>m. find_sub m low) markers of
        [] \<Rightarrow> None
      | i # is \<Rightarrow> Some (fold min is i))"

definition strip_footer_earliest :: "env \<Rightarrow> ustr \<Rightarrow> ustr" where
  "strip_footer_earliest E text =
     (case earliest_marker (FOOTER_MARKERS E) (str_lower E text) of
        None \<Rightarrow> text
      | Some idx \<Rightarrow> take idx text)"

text \<open>
  The texts \<open>Decimal\<close> accepts among those its callers build: an optional sign, then
  digits and at most one period, with at least one digit.
\<close>

definition numeral_text :: "ustr \<Rightarrow> bool" where
  "numeral_text s =
     (let body = (case s of [] \<Rightarrow> [] | c # cs \<Rightarrow> if c = HYPHEN \<or> c = PLUS then cs else s)
      in list_all (\<lambda>c. is_digit c \<or> c = PERIOD) body \<and>
         length (filter (\<lambda>c. c = PERIOD) body) \<le> 1 \<and>
         list_ex is_digit body)"


section \<open>Evaluation rules\<close>

lemmas char_defs =
  SPACE_def NEWLINE_def PLUS_def COMMA_def HYPHEN_def PERIOD_def MINUS_SIGN_def TENGE_def

lemmas string_defs =
  ascii_def is_space_def is_digit_def strip_def replace1_def py_in_def

lemmas sample_defs =
  sample_env_def basic_lower_def basic_lower_cp_def basic_capitalize_def basic_upper_cp_def
  sample_date_start_def sample_tx_head_def PEREVOD_def POKUPKA_def KZT_def

lemmas decimal_defs =
  to_decimal_def to_decimal_text_def parse_amount_def parse_amount_text_def Decimal_def
  unsigned_decimal_def digits_value_def

lemmas date_defs =
  strptime_def day_token_def month_token_def year_token_def nonzero_digit_def
  days_in_month_def is_leap_def digits_value_def

section \<open>Whitespace normalisation\<close>

lemma is_space_SPACE: "is_space SPACE"
  by (simp add: is_space_def SPACE_def)

lemma collapse_ws_head: "collapse_ws (dropWhile is_space cs) = d # ds \<Longrightarrow> \<not> is_space d"
  by (cases "dropWhile is_space cs") (auto split: if_splits dest: hd_dropWhile simp: dropWhile_eq_Cons_conv)

lemma tidy_collapse_ws: "tidy (collapse_ws s)"
proof (induction s rule: collapse_ws.induct)
  case 1
  show ?case by simp
next
  case (2 c cs)
  show ?case
  proof (cases "is_space c")
    case True
    with 2 show ?thesis
      by (cases "collapse_ws (dropWhile is_space cs)") (auto simp: is_space_SPACE dest: collapse_ws_head)
  next
    case False
    with 2 show ?thesis by simp
  qed
qed

lemma tidy_space_next: "tidy (c # cs) \<Longrightarrow> is_space c \<Longrightarrow> c = SPACE \<and> dropWhile is_space cs = cs"
  by (cases cs) (simp_all split: if_splits)

lemma collapse_ws_tidy: "tidy s \<Longrightarrow> collapse_ws s = s"
proof (induction s)
  case Nil
  show ?case by simp
next
  case (Cons c cs)
  then have ih: "collapse_ws cs = cs" by simp
  show ?case
  proof (cases "is_space c")
    case True
    with Cons.prems have "c = SPACE \<and> dropWhile is_space cs = cs"
      by (rule_tac tidy_space_next)
    with True ih show ?thesis by simp
  next
    case False
    with ih show ?thesis by simp
  qed
qed

lemma tidy_append_left: "tidy (xs @ ys) \<Longrightarrow> tidy xs"
  by (induction xs) (auto simp: hd_append split: if_splits)

lemma tidy_dropWhile: "tidy s \<Longrightarrow> tidy (dropWhile P s)"
  by (induction s) (auto split: if_splits)

lemma rstrip_prefix: "rev (dropWhile P (rev xs)) @ rev (takeWhile P (rev xs)) = xs"
  by (metis rev_append rev_rev_ident takeWhile_dropWhile_id)

lemma tidy_strip: "tidy s \<Longrightarrow> tidy (strip s)"
  unfolding strip_def
  by (metis tidy_append_left tidy_dropWhile rstrip_prefix)

lemma strip_idem: "strip (strip s) = strip s"
proof -
  define a where "a = dropWhile is_space s"
  define b where "b = rev (dropWhile is_space (rev a))"
  have ab: "b @ rev (takeWhile is_space (rev a)) = a"
    unfolding b_def by (rule rstrip_prefix)
  have "dropWhile is_space b = b"
  proof (cases b)
    case Nil
    then show ?thesis by simp
  next
    case (Cons x xs)
    with ab have "a = x # xs @ rev (takeWhile is_space (rev a))" by simp
    then have "\<not> is_space x"
      unfolding a_def by (metis hd_dropWhile list.sel(1) list.distinct(1))
    with Cons show ?thesis by simp
  qed
  moreover have "dropWhile is_space (rev b) = rev b"
    unfolding b_def by simp
  ultimately show ?thesis
    unfolding strip_def a_def[symmetric] b_def[symmetric] by simp
qed

lemma ws_norm_idem: "strip (collapse_ws (strip (collapse_ws s))) = strip (collapse_ws s)"
  by (simp add: collapse_ws_tidy tidy_strip tidy_collapse_ws strip_idem)

section \<open>Cleaning a cleaned description\<close>

lemma strip_footer_loop_none:
  "\<forall>m\<in>set ms. find_sub m low = None \<Longrightarrow> strip_footer_loop ms low text = text"
  by (induction ms) simp_all

lemma foldl_noise_fixed: "\<forall>p\<in>set ps. p t = t \<Longrightarrow> foldl (\<lambda>t p. p t) t ps = t"
  by (induction ps) simp_all

text \<open>
  Claim C6, as stated: \<open>clean_description\<close> is idempotent for every string and every
  configuration of footer markers and noise patterns. It fails: with the footer marker
  \<open>a b\<close> and no noise pattern, the string \<open>a  b\<close> (two spaces) holds no marker and is
  cleaned to \<open>a b\<close>, which is the marker and is cleaned to the empty string.
\<close>

theorem clean_description_not_idempotent:
  "clean_description (sample_env\<lparr>FOOTER_MARKERS := [ascii ''a b'']\<rparr>)
     (clean_description (sample_env\<lparr>FOOTER_MARKERS := [ascii ''a b'']\<rparr>) (ascii ''a  b''))
   \<noteq> clean_description (sample_env\<lparr>FOOTER_MARKERS := [ascii ''a b'']\<rparr>) (ascii ''a  b'')"
  by (simp add: clean_description_def strip_footer_def sample_defs string_defs char_defs)

text \<open>
  One pass over a description with a footer and a noise phrase, in the environment with
  the marker \<open>footer\<close> and the noise pattern \<open>noise\<close>.
\<close>

lemma footer_noise_env_fields:
  "str_lower footer_noise_env = basic_lower"
  "FOOTER_MARKERS footer_noise_env = [ascii ''footer'']"
  "NOISE_PATTERNS footer_noise_env = [literal_sub (ascii ''noise'')]"
  by (simp_all add: footer_noise_env_def sample_env_def)

lemma footer_cut:
  "strip_footer footer_noise_env (ascii ''Pay  NOISE shop Footer page 1'') = ascii ''Pay  NOISE shop ''"
  by (simp add: strip_footer_def footer_noise_env_fields basic_lower_def basic_lower_cp_def ascii_def)

lemma noise_removed:
  "literal_sub (ascii ''noise'') (ascii ''Pay  NOISE shop '') = ascii ''Pay   shop ''"
  by (simp add: literal_sub_def basic_lower_def basic_lower_cp_def ascii_def)

lemma spaces_collapsed: "strip (collapse_ws (ascii ''Pay   shop '')) = ascii ''Pay shop''"
  by (simp add: string_defs char_defs)

lemma cleaned: "clean_description footer_noise_env (ascii ''Pay  NOISE shop Footer page 1'') = ascii ''Pay shop''"
  by (simp add: clean_description_def footer_cut noise_removed spaces_collapsed footer_noise_env_fields)

lemma cleaned_no_marker: "\<not> py_in (ascii ''footer'') (basic_lower (ascii ''Pay shop''))"
  by (simp add: py_in_def basic_lower_def basic_lower_cp_def ascii_def)

lemma cleaned_no_noise: "literal_sub (ascii ''noise'') (ascii ''Pay shop'') = ascii ''Pay shop''"
  by (simp add: literal_sub_def basic_lower_def basic_lower_cp_def ascii_def)

text \<open>
  Claim C6, amended: cleaning a cleaned description changes nothing whenever the
  cleaned description holds no footer marker (in its lower-cased text) and every noise
  substitution leaves it unchanged; in particular for every string when no footer
  marker and no noise pattern is configured.
\<close>

theorem clean_description_idempotent_when_stable:
  assumes "\<forall>m\<in>set (FOOTER_MARKERS E). \<not> py_in m (str_lower E (clean_description E s))"
    and "\<forall>p\<in>set (NOISE_PATTERNS E). p (clean_description E s) = clean_description E s"
  shows "clean_description E (clean_description E s) = clean_description E s"
proof -
  define t where "t = clean_description E s"
  have t: "t = strip (collapse_ws (foldl (\<lambda>t p. p t) (strip_footer E s) (NOISE_PATTERNS E)))"
    by (simp add: t_def clean_description_def)
  from assms(1) have "strip_footer E t = t"
    by (simp add: strip_footer_def strip_footer_loop_none py_in_def t_def)
  moreover from assms(2) have "foldl (\<lambda>t p. p t) t (NOISE_PATTERNS E) = t"
    by (simp add: foldl_noise_fixed t_def)
  moreover have "strip (collapse_ws t) = t"
    unfolding t by (rule ws_norm_idem)
  ultimately have "clean_description E t = t"
    by (simp add: clean_description_def)
  then show ?thesis by (simp add: t_def)
qed

theorem clean_description_idempotent_witness:
  "FOOTER_MARKERS footer_noise_env = [ascii ''footer''] \<and>
   NOISE_PATTERNS footer_noise_env = [literal_sub (ascii ''noise'')] \<and>
   strip_footer footer_noise_env (ascii ''Pay  NOISE shop Footer page 1'') = ascii ''Pay  NOISE shop '' \<and>
   literal_sub (ascii ''noise'') (ascii ''Pay  NOISE shop '') = ascii ''Pay   shop '' \<and>
   clean_description footer_noise_env (ascii ''Pay  NOISE shop Footer page 1'') = ascii ''Pay shop'' \<and>
   \<not> py_in (ascii ''footer'') (str_lower footer_noise_env (ascii ''Pay shop'')) \<and>
   literal_sub (ascii ''noise'') (ascii ''Pay shop'') = ascii ''Pay shop'' \<and>
   clean_description footer_noise_env
     (clean_description footer_noise_env (ascii ''Pay  NOISE shop Footer page 1'')) = ascii ''Pay shop''"
proof -
  let ?s = "ascii ''Pay  NOISE shop Footer page 1''"
  have m: "\<forall>m\<in>set (FOOTER_MARKERS footer_noise_env).
      \<not> py_in m (str_lower footer_noise_env (clean_description footer_noise_env ?s))"
    by (simp add: cleaned footer_noise_env_fields cleaned_no_marker)
  have n: "\<forall>p\<in>set (NOISE_PATTERNS footer_noise_env).
      p (clean_description footer_noise_env ?s) = clean_description footer_noise_env ?s"
    by (simp add: cleaned footer_noise_env_fields cleaned_no_noise)
  from clean_description_idempotent_when_stable [OF m n]
  have "clean_description footer_noise_env (clean_description footer_noise_env ?s) = ascii ''Pay shop''"
    by (simp add: cleaned)
  with footer_cut noise_removed cleaned cleaned_no_marker cleaned_no_noise show ?thesis
    by (simp add: footer_noise_env_fields)
qed

section \<open>Where the footer is cut\<close>

lemma find_sub_SomeD:
  "find_sub m s = Some i \<Longrightarrow>
     i \<le> length s \<and> prefix m (drop i s) \<and> (\<forall>j<i. \<not> prefix m (drop j s))"
proof (induction s arbitrary: i)
  case Nil
  then show ?case by (simp split: if_splits)
next
  case (Cons c cs)
  show ?case
  proof (cases "prefix m (c # cs)")
    case True
    with Cons.prems show ?thesis by simp
  next
    case False
    with Cons.prems obtain k where k: "find_sub m cs = Some k" and i: "i = Suc k"
      by auto
    from Cons.IH [OF k] have ih: "k \<le> length cs" "prefix m (drop k cs)"
      "\<forall>j<k. \<not> prefix m (drop j cs)" by simp_all
    have "\<not> prefix m (drop j (c # cs))" if "j < i" for j
    proof (cases j)
      case 0
      with False show ?thesis by simp
    next
      case (Suc j')
      with that i ih(3) show ?thesis by simp
    qed
    with ih i show ?thesis by simp
  qed
qed

lemma strip_footer_loop_first:
  "\<forall>m'\<in>set pre. find_sub m' low = None \<Longrightarrow> find_sub m low = Some i \<Longrightarrow>
     strip_footer_loop (pre @ m # post) low text = take i text"
  by (induction pre) simp_all

text \<open>
  Claim C4, as stated: \<open>strip_footer\<close> truncates at the smallest index at which any
  configured marker occurs, whatever the order of the markers in the list. It fails:
  with the markers \<open>bar\<close>, \<open>foo\<close> in this order, \<open>x foo bar\<close> is cut at \<open>bar\<close>
  (index 6), although \<open>foo\<close> occurs earlier (index 2).
\<close>

theorem strip_footer_not_earliest_marker:
  "strip_footer (sample_env\<lparr>FOOTER_MARKERS := [ascii ''bar'', ascii ''foo'']\<rparr>) (ascii ''x foo bar'')
     = ascii ''x foo '' \<and>
   strip_footer_earliest (sample_env\<lparr>FOOTER_MARKERS := [ascii ''bar'', ascii ''foo'']\<rparr>) (ascii ''x foo bar'')
     = ascii ''x ''"
  by (simp add: strip_footer_def strip_footer_earliest_def earliest_marker_def List.map_filter_def
      sample_defs string_defs)

text \<open>
  Claim C4, amended: \<open>strip_footer\<close> returns the text unchanged when no configured
  marker occurs in the lower-cased text; otherwise it truncates the text at the first
  occurrence of the first marker, in the order of the configured list, that occurs in
  the lower-cased text.
\<close>

theorem strip_footer_first_listed_marker:
  "((\<forall>m\<in>set (FOOTER_MARKERS E). \<not> py_in m (str_lower E text)) \<longrightarrow> strip_footer E text = text) \<and>
   (FOOTER_MARKERS E = pre @ m # post \<and> (\<forall>m'\<in>set pre. \<not> py_in m' (str_lower E text)) \<and>
    find_sub m (str_lower E text) = Some i \<longrightarrow>
      strip_footer E text = take i text \<and> prefix m (drop i (str_lower E text)) \<and>
      (\<forall>j<i. \<not> prefix m (drop j (str_lower E text))))"
proof (intro conjI impI)
  assume "\<forall>m\<in>set (FOOTER_MARKERS E). \<not> py_in m (str_lower E text)"
  then show "strip_footer E text = text"
    by (simp add: strip_footer_def strip_footer_loop_none py_in_def)
next
  assume a: "FOOTER_MARKERS E = pre @ m # post \<and>
    (\<forall>m'\<in>set pre. \<not> py_in m' (str_lower E text)) \<and> find_sub m (str_lower E text) = Some i"
  then show "strip_footer E text = take i text"
    by (simp add: strip_footer_def strip_footer_loop_first py_in_def)
  from a find_sub_SomeD [of m "str_lower E text" i]
  show "prefix m (drop i (str_lower E text))" by simp
  from a find_sub_SomeD [of m "str_lower E text" i]
  show "\<forall>j<i. \<not> prefix m (drop j (str_lower E text))" by simp
qed

theorem strip_footer_first_listed_marker_witness:
  "FOOTER_MARKERS (sample_env\<lparr>FOOTER_MARKERS := [ascii ''zzz'', ascii ''bar'', ascii ''foo'']\<rparr>)
     = [ascii ''zzz''] @ ascii ''bar'' # [ascii ''foo''] \<and>
   find_sub (ascii ''zzz'') (basic_lower (ascii ''x Foo Bar'')) = None \<and>
   find_sub (ascii ''bar'') (basic_lower (ascii ''x Foo Bar'')) = Some 6 \<and>
   strip_footer (sample_env\<lparr>FOOTER_MARKERS := [ascii ''zzz'', ascii ''bar'', ascii ''foo'']\<rparr>)
     (ascii ''x Foo Bar'') = ascii ''x Foo ''"
proof -
  let ?E = "sample_env\<lparr>FOOTER_MARKERS := [ascii ''zzz'', ascii ''bar'', ascii ''foo'']\<rparr>"
  let ?t = "ascii ''x Foo Bar''"
  have l: "str_lower ?E ?t = basic_lower ?t"
    by (simp add: sample_env_def)
  have m: "FOOTER_MARKERS ?E = [ascii ''zzz''] @ ascii ''bar'' # [ascii ''foo'']"
    by simp
  have z: "find_sub (ascii ''zzz'') (basic_lower ?t) = None"
    by (simp add: sample_defs string_defs)
  have b: "find_sub (ascii ''bar'') (basic_lower ?t) = Some 6"
    by (simp add: sample_defs string_defs)
  have "strip_footer ?E ?t = take 6 ?t"
    using strip_footer_first_listed_marker [of ?E ?t "[ascii ''zzz'']" "ascii ''bar''" "[ascii ''foo'']" 6]
      m z b l by (simp add: py_in_def)
  moreover have "take 6 ?t = ascii ''x Foo ''"
    by (simp add: ascii_def)
  ultimately show ?thesis using m z b by simp
qed

section \<open>The amount normalizers\<close>

lemma not_digit_PERIOD: "\<not> is_digit PERIOD"
  by (simp add: is_digit_def PERIOD_def)

lemma digits_iff_no_period:
  "list_all is_digit xs \<longleftrightarrow>
     list_all (\<lambda>c. is_digit c \<or> c = PERIOD) xs \<and> filter (\<lambda>c. c = PERIOD) xs = []"
  by (induction xs) (auto simp: not_digit_PERIOD)

lemma digits_ex_iff: "list_all is_digit xs \<Longrightarrow> list_ex is_digit xs \<longleftrightarrow> xs \<noteq> []"
  by (cases xs) simp_all

lemma filter_period_takeWhile: "filter (\<lambda>c. c = PERIOD) (takeWhile (\<lambda>c. c \<noteq> PERIOD) xs) = []"
  by (induction xs) simp_all

lemma unsigned_decimal_ok_iff:
  "(\<exists>d. unsigned_decimal neg body = Inr d) \<longleftrightarrow>
     list_all (\<lambda>c. is_digit c \<or> c = PERIOD) body \<and>
     length (filter (\<lambda>c. c = PERIOD) body) \<le> 1 \<and> list_ex is_digit body"
proof -
  define ip where "ip = takeWhile (\<lambda>c. c \<noteq> PERIOD) body"
  define rest where "rest = dropWhile (\<lambda>c. c \<noteq> PERIOD) body"
  have body: "body = ip @ rest"
    by (simp add: ip_def rest_def)
  have ipf: "filter (\<lambda>c. c = PERIOD) ip = []"
    by (simp add: ip_def filter_period_takeWhile)
  then have ipd: "list_all is_digit ip \<longleftrightarrow> list_all (\<lambda>c. is_digit c \<or> c = PERIOD) ip"
    by (simp add: digits_iff_no_period)
  show ?thesis
  proof (cases rest)
    case Nil
    have "(\<exists>d. unsigned_decimal neg body = Inr d) \<longleftrightarrow> list_all is_digit ip \<and> ip \<noteq> []"
      unfolding unsigned_decimal_def Let_def ip_def[symmetric] rest_def[symmetric] Nil
      by simp
    also have "\<dots> \<longleftrightarrow> list_all (\<lambda>c. is_digit c \<or> c = PERIOD) ip \<and> list_ex is_digit ip"
      using ipd digits_ex_iff [of ip] by blast
    finally show ?thesis
      using ipf by (simp add: body Nil)
  next
    case (Cons p fp)
    have p: "p = PERIOD"
      using Cons hd_dropWhile [of "\<lambda>c. c \<noteq> PERIOD" body] by (simp add: rest_def)
    have "(\<exists>d. unsigned_decimal neg body = Inr d) \<longleftrightarrow>
        list_all is_digit ip \<and> list_all is_digit fp \<and> (ip \<noteq> [] \<or> fp \<noteq> [])"
      unfolding unsigned_decimal_def Let_def ip_def[symmetric] rest_def[symmetric] Cons
      by simp
    also have "\<dots> \<longleftrightarrow> list_all is_digit ip \<and> list_all is_digit fp \<and>
        (list_ex is_digit ip \<or> list_ex is_digit fp)"
      using digits_ex_iff [of ip] digits_ex_iff [of fp] by blast
    also have "\<dots> \<longleftrightarrow> list_all (\<lambda>c. is_digit c \<or> c = PERIOD) ip \<and>
        (list_all (\<lambda>c. is_digit c \<or> c = PERIOD) fp \<and> filter (\<lambda>c. c = PERIOD) fp = []) \<and>
        (list_ex is_digit ip \<or> list_ex is_digit fp)"
      using ipd digits_iff_no_period [of fp] by blast
    finally show ?thesis
      using ipf by (auto simp: body Cons p not_digit_PERIOD)
  qed
qed

lemma Decimal_ok_iff: "(\<exists>d. Decimal s = Inr d) \<longleftrightarrow> numeral_text s"
proof (cases s)
  case Nil
  then show ?thesis by (simp add: Decimal_def numeral_text_def)
next
  case (Cons c cs)
  then show ?thesis
    by (simp add: Decimal_def numeral_text_def unsigned_decimal_ok_iff)
qed

lemma Decimal_raises: "Decimal s = Inl e \<Longrightarrow> e = InvalidOperation"
  by (auto simp: Decimal_def unsigned_decimal_def Let_def split: list.splits if_splits)

lemma Decimal_zero: "Decimal [48] = Inr dec_zero"
  by (simp add: Decimal_def unsigned_decimal_def digits_value_def dec_zero_def is_digit_def
      char_defs)

lemma numeral_text_zero: "numeral_text [48]"
  by (simp add: numeral_text_def is_digit_def char_defs)

text \<open>
  Claim C3, as stated: the amount normalizer is total, returning a \<open>Decimal\<close> for
  every input string without raising. It fails: a lone hyphen survives the removal of
  the other characters and \<open>Decimal("-")\<close> raises \<open>InvalidOperation\<close>; so does a text
  with two periods.
\<close>

theorem amount_normalizers_raise:
  "to_decimal (ascii ''-'') = Inl InvalidOperation \<and>
   parse_amount (ascii ''-'') = Inl InvalidOperation \<and>
   to_decimal (ascii ''1.2.3'') = Inl InvalidOperation"
  by (simp add: decimal_defs string_defs char_defs)

text \<open>
  Claim C3, amended: both normalizers return the decimal zero when the input is empty
  or fully stripped; they return a \<open>Decimal\<close> without raising whenever the stripped
  text is an optionally signed numeral (digits with at most one period and at least
  one digit); and the only exception they raise is \<open>InvalidOperation\<close>, on a stripped
  text that is neither empty nor such a numeral.
\<close>

theorem amount_normalizers_partial:
  "(to_decimal_text v = [] \<longrightarrow> to_decimal v = Inr dec_zero) \<and>
   (parse_amount_text v = [] \<longrightarrow> parse_amount v = Inr dec_zero) \<and>
   (numeral_text (to_decimal_text v) \<longrightarrow> (\<exists>d. to_decimal v = Inr d)) \<and>
   (numeral_text (parse_amount_text v) \<longrightarrow> (\<exists>d. parse_amount v = Inr d)) \<and>
   (to_decimal v = Inl e \<longrightarrow>
      e = InvalidOperation \<and> to_decimal_text v \<noteq> [] \<and> \<not> numeral_text (to_decimal_text v)) \<and>
   (parse_amount v = Inl e \<longrightarrow>
      e = InvalidOperation \<and> parse_amount_text v \<noteq> [] \<and> \<not> numeral_text (parse_amount_text v))"
proof (intro conjI impI)
  show "to_decimal v = Inr dec_zero" if "to_decimal_text v = []"
    using that by (simp add: to_decimal_def Decimal_zero)
  show "parse_amount v = Inr dec_zero" if "parse_amount_text v = []"
    using that by (simp add: parse_amount_def Decimal_zero)
  show "\<exists>d. to_decimal v = Inr d" if "numeral_text (to_decimal_text v)"
    using that Decimal_ok_iff [of "to_decimal_text v"] Decimal_zero
    by (auto simp: to_decimal_def Let_def)
  show "\<exists>d. parse_amount v = Inr d" if "numeral_text (parse_amount_text v)"
    using that Decimal_ok_iff [of "parse_amount_text v"] Decimal_zero
    by (auto simp: parse_amount_def Let_def)
next
  assume a: "to_decimal v = Inl e"
  then show "e = InvalidOperation"
    by (auto simp: to_decimal_def Let_def dest: Decimal_raises split: if_splits)
  from a show "to_decimal_text v \<noteq> []"
    by (auto simp: to_decimal_def Decimal_zero)
  from a Decimal_ok_iff [of "to_decimal_text v"] show "\<not> numeral_text (to_decimal_text v)"
    by (auto simp: to_decimal_def Let_def Decimal_zero split: if_splits)
next
  assume a: "parse_amount v = Inl e"
  then show "e = InvalidOperation"
    by (auto simp: parse_amount_def Let_def dest: Decimal_raises split: if_splits)
  from a show "parse_amount_text v \<noteq> []"
    by (auto simp: parse_amount_def Decimal_zero)
  from a Decimal_ok_iff [of "parse_amount_text v"] show "\<not> numeral_text (parse_amount_text v)"
    by (auto simp: parse_amount_def Let_def Decimal_zero split: if_splits)
qed

theorem amount_normalizers_partial_witness:
  "to_decimal_text (ascii ''???'') = [] \<and> to_decimal (ascii ''???'') = Inr dec_zero \<and>
   parse_amount_text (ascii ''???'') = [] \<and> parse_amount (ascii ''???'') = Inr dec_zero \<and>
   numeral_text (to_decimal_text (ascii ''1 234,56'')) \<and>
   to_decimal (ascii ''1 234,56'') = Inr \<lparr>dneg = False, dcoeff = 123456, dexp = - 2\<rparr> \<and>
   numeral_text (parse_amount_text (ascii ''+3 000,00'')) \<and>
   parse_amount (ascii ''+3 000,00'') = Inr \<lparr>dneg = False, dcoeff = 300000, dexp = - 2\<rparr> \<and>
   to_decimal (ascii ''-'') = Inl InvalidOperation \<and> to_decimal_text (ascii ''-'') \<noteq> [] \<and>
   \<not> numeral_text (to_decimal_text (ascii ''-'')) \<and>
   parse_amount (ascii ''1-2'') = Inl InvalidOperation \<and> parse_amount_text (ascii ''1-2'') \<noteq> [] \<and>
   \<not> numeral_text (parse_amount_text (ascii ''1-2''))"
proof -
  have e1: "to_decimal_text (ascii ''???'') = []" and e2: "parse_amount_text (ascii ''???'') = []"
    by (simp_all add: decimal_defs string_defs char_defs)
  have n1: "numeral_text (to_decimal_text (ascii ''1 234,56''))"
    and n2: "numeral_text (parse_amount_text (ascii ''+3 000,00''))"
    by (simp_all add: numeral_text_def decimal_defs string_defs char_defs)
  have v1: "to_decimal (ascii ''1 234,56'') = Inr \<lparr>dneg = False, dcoeff = 123456, dexp = - 2\<rparr>"
    and v2: "parse_amount (ascii ''+3 000,00'') = Inr \<lparr>dneg = False, dcoeff = 300000, dexp = - 2\<rparr>"
    by (simp_all add: decimal_defs string_defs char_defs)
  have r1: "to_decimal (ascii ''-'') = Inl InvalidOperation"
    and r2: "parse_amount (ascii ''1-2'') = Inl InvalidOperation"
    by (simp_all add: decimal_defs string_defs char_defs)
  from amount_normalizers_partial [of "ascii ''???''"] e1 e2
  have z: "to_decimal (ascii ''???'') = Inr dec_zero \<and> parse_amount (ascii ''???'') = Inr dec_zero"
    by simp
  from amount_normalizers_partial [of "ascii ''-''" InvalidOperation] r1
  have a: "to_decimal_text (ascii ''-'') \<noteq> [] \<and> \<not> numeral_text (to_decimal_text (ascii ''-''))"
    by simp
  from amount_normalizers_partial [of "ascii ''1-2''" InvalidOperation] r2
  have b: "parse_amount_text (ascii ''1-2'') \<noteq> [] \<and> \<not> numeral_text (parse_amount_text (ascii ''1-2''))"
    by simp
  from e1 e2 n1 n2 v1 v2 r1 r2 z a b show ?thesis by simp
qed

section \<open>Format A: what leaves the head-line decoders\<close>

lemma sample_env_fields:
  "str_lower sample_env = basic_lower" "str_capitalize sample_env = basic_capitalize"
  "DATE_START_RE sample_env = sample_date_start" "TX_HEAD_RE sample_env = sample_tx_head"
  "KNOWN_OPERATIONS sample_env = [PEREVOD, POKUPKA]" "FOOTER_MARKERS sample_env = []"
  "NOISE_PATTERNS sample_env = []"
  by (simp_all add: sample_env_def)

lemma parse_head_line_raises:
  "TX_HEAD_RE E line = Some m \<Longrightarrow> strptime DMY4 (g_date m) = None \<Longrightarrow>
     parse_head_line E line = Inl ValueError"
  by (simp add: parse_head_line_def)

lemma page_loop_raises:
  "DATE_START_RE E line \<Longrightarrow> decode line = Inl e \<Longrightarrow>
     page_loop E decode st (line # lines) = Inl e"
  by simp

lemma kaspi_row_bad_date:
  "\<not> looks_like_header E (normalize_row raw) \<Longrightarrow>
   idx_date c = Some i_date \<Longrightarrow> idx_amount c = Some i_amount \<Longrightarrow>
   idx_operation c = Some i_operation \<Longrightarrow>
   decode_row E i_date i_amount i_operation (idx_details c) (normalize_row raw) = Inr None \<Longrightarrow>
     kaspi_row E c raw = (c, [])"
  by (simp add: kaspi_row_def Let_def)

lemma sample_head_invalid_date: "sample_tx_head (ascii ''30.02.2025 -500,00 KZT perevod Oplata'') =
   Some \<lparr>g_date = ascii ''30.02.2025'', g_amount = ascii ''-500,00'', g_currency = ascii ''KZT'',
     g_operation = ascii ''perevod'', g_details = Some (ascii ''Oplata'')\<rparr>"
  by (simp add: sample_defs string_defs char_defs)

lemma strptime_invalid_date: "strptime DMY4 (ascii ''30.02.2025'') = None"
  by (simp add: date_defs string_defs char_defs)

lemma parse_head_line_invalid_date: "parse_head_line sample_env (ascii ''30.02.2025 -500,00 KZT perevod Oplata'') = Inl ValueError"
  by (simp add: parse_head_line_def sample_head_invalid_date strptime_invalid_date sample_env_fields)

lemma page_lines_invalid_date: "page_lines (ascii ''30.02.2025 -500,00 KZT perevod Oplata'') = [ascii ''30.02.2025 -500,00 KZT perevod Oplata'']"
  by (simp add: page_lines_def string_defs char_defs)

lemma sample_start_invalid_date: "sample_date_start (ascii ''30.02.2025 -500,00 KZT perevod Oplata'')"
  by (simp add: sample_defs string_defs char_defs)

text \<open>
  Claim C1: no error leaves the per-document entry points; a head line whose date token
  fails to parse makes the head-line decoder return no match. The format-A entry point
  does otherwise: \<open>_parse_head_line\<close> calls \<open>datetime.strptime\<close> outside any \<open>try\<close>, so
  on the page whose only line is \<open>30.02.2025 -500,00 KZT perevod Oplata\<close> the
  \<open>ValueError\<close> leaves the decoder and \<open>parse_freedom_pdf\<close>. (In format B the date is
  parsed in \<open>_parse_date\<close> under a \<open>try\<close>, and the row is decoded under another.)
\<close>

theorem parse_freedom_pdf_raises_on_invalid_date:
  "parse_head_line sample_env (ascii ''30.02.2025 -500,00 KZT perevod Oplata'') = Inl ValueError \<and>
   parse_freedom_pdf sample_env [Some (ascii ''30.02.2025 -500,00 KZT perevod Oplata'')] = Inl ValueError"
proof -
  have ne: "ascii ''30.02.2025 -500,00 KZT perevod Oplata'' \<noteq> []"
    by (simp add: ascii_def)
  show ?thesis
    by (simp add: parse_freedom_pdf_def parse_page_def page_lines_invalid_date parse_head_line_invalid_date sample_start_invalid_date ne sample_env_fields)
qed

section \<open>The direction of a record\<close>

lemma dec_lt0_value: "dec_lt0 d \<longleftrightarrow> dec_value d < 0"
  by (auto simp: dec_lt0_def dec_value_def mult_less_0_iff zero_less_mult_iff divide_less_0_iff)

lemma dec_gt0_value: "dec_gt0 d \<longleftrightarrow> 0 < dec_value d"
  by (auto simp: dec_gt0_def dec_value_def mult_less_0_iff zero_less_mult_iff zero_less_divide_iff)

lemma direction_of_value:
  "direction_of d =
     (if dec_value d < 0 then Expense else if 0 < dec_value d then Income else Neutral)"
  by (simp add: direction_of_def dec_lt0_value dec_gt0_value)

lemma dec_abs_value: "dec_value (dec_abs d) = \<bar>dec_value d\<bar>"
  by (simp add: dec_abs_def dec_value_def abs_mult)

lemma dec_neg_value: "dec_value (dec_neg d) = - dec_value d"
  by (simp add: dec_neg_def dec_value_def)

lemma flush_all:
  "list_all P (fst st) \<Longrightarrow> (\<And>c. snd st = Some c \<Longrightarrow> P c) \<Longrightarrow>
   (\<And>t d. P t \<Longrightarrow> P (t\<lparr>tx_description := d\<rparr>)) \<Longrightarrow> list_all P (fst (flush E st))"
  by (cases st) (auto simp: flush_def split: option.splits)

lemma page_loop_all:
  assumes dec: "\<And>line t. decode line = Inr (Some t) \<Longrightarrow> P t"
    and upd: "\<And>t d. P t \<Longrightarrow> P (t\<lparr>tx_description := d\<rparr>)"
  shows "list_all P (fst st) \<Longrightarrow> (\<And>c. snd st = Some c \<Longrightarrow> P c) \<Longrightarrow>
     page_loop E decode st lines = Inr txs \<Longrightarrow> list_all P txs"
proof (induction lines arbitrary: st)
  case Nil
  then show ?case using flush_all [of P st E] upd by auto
next
  case (Cons line lines)
  show ?case
  proof (cases "DATE_START_RE E line")
    case True
    with Cons.prems(3) obtain head where h: "decode line = Inr head"
      and r: "page_loop E decode (fst (flush E st), head) lines = Inr txs"
      by (auto split: sum.splits)
    have "list_all P (fst (flush E st))"
      using flush_all [of P st E] Cons.prems(1,2) upd by auto
    moreover have "P c" if "head = Some c" for c
      using that h dec by simp
    ultimately show ?thesis
      using Cons.IH [of "(fst (flush E st), head)"] r by simp
  next
    case False
    let ?st = "(fst st, map_option (\<lambda>c. c\<lparr>tx_description := tx_description c @ SPACE # line\<rparr>) (snd st))"
    from False Cons.prems(3) have r: "page_loop E decode ?st lines = Inr txs"
      by simp
    have "P c" if "snd ?st = Some c" for c
      using that Cons.prems(2) upd by auto
    with Cons.IH [of ?st] Cons.prems(1) r show ?thesis by simp
  qed
qed

lemma pages_loop_all:
  assumes "\<And>ls txs. page ls = Inr txs \<Longrightarrow> list_all P txs"
  shows "pages_loop page pgs = Inr txs \<Longrightarrow> list_all P txs"
proof (induction pgs arbitrary: txs)
  case Nil
  then show ?case by simp
next
  case (Cons pg pgs)
  then show ?case
    using assms by (auto split: option.splits if_splits sum.splits)
qed

lemma parse_head_line_direction:
  "parse_head_line E line = Inr (Some t) \<Longrightarrow> tx_direction t = direction_of (tx_amount t)"
  by (auto simp: parse_head_line_def Let_def split: option.splits sum.splits)

lemma parse_freedom_pdf_direction:
  assumes "parse_freedom_pdf E pages = Inr txs"
  shows "list_all (\<lambda>t. tx_direction t = direction_of (tx_amount t)) txs"
proof -
  let ?P = "\<lambda>t. tx_direction t = direction_of (tx_amount t)"
  from assms obtain txs0 where p: "pages_loop (parse_page E) pages = Inr txs0"
    and t: "txs = map (\<lambda>t. t\<lparr>tx_source := Some Freedom\<rparr>) txs0"
    by (auto simp: parse_freedom_pdf_def split: sum.splits)
  have "list_all ?P ys" if "parse_page E ls = Inr ys" for ls ys
    using that page_loop_all [of "parse_head_line E" ?P "([], None)" E ls ys]
    by (simp add: parse_page_def parse_head_line_direction)
  with p have "list_all ?P txs0"
    by (rule_tac pages_loop_all)
  with t show ?thesis by (simp add: list_all_iff)
qed

lemma decode_row_direction:
  "decode_row E i_date i_amount i_operation i_details row = Inr (Some t) \<Longrightarrow>
     tx_direction t = direction_of (tx_amount t)"
  by (auto simp: decode_row_def split: option.splits sum.splits)

lemma kaspi_row_direction:
  "list_all (\<lambda>t. tx_direction t = direction_of (tx_amount t)) (snd (kaspi_row E c raw))"
  by (auto simp: kaspi_row_def Let_def split: option.splits sum.splits dest: decode_row_direction)

lemma kaspi_rows_direction:
  "list_all (\<lambda>t. tx_direction t = direction_of (tx_amount t)) (snd (kaspi_rows E c rows))"
proof (induction rows arbitrary: c)
  case Nil
  show ?case by simp
next
  case (Cons raw rows)
  show ?case
    using kaspi_row_direction [of E c raw] Cons [of "fst (kaspi_row E c raw)"]
    by (simp add: split_beta)
qed

lemma kaspi_pages_direction:
  "list_all (\<lambda>t. tx_direction t = direction_of (tx_amount t)) (snd (kaspi_pages E c pgs))"
proof (induction pgs arbitrary: c)
  case Nil
  show ?case by simp
next
  case (Cons table pgs)
  show ?case
  proof (cases table)
    case None
    with Cons show ?thesis by simp
  next
    case (Some rows)
    with kaspi_rows_direction [of E c rows] Cons [of "fst (kaspi_rows E c rows)"]
    show ?thesis by (simp add: split_beta)
  qed
qed

lemma sample_head_income: "sample_tx_head (ascii ''18.12.2025 +1000,00 KZT Dohod Zarplata'') =
   Some \<lparr>g_date = ascii ''18.12.2025'', g_amount = ascii ''+1000,00'', g_currency = ascii ''KZT'',
     g_operation = ascii ''Dohod'', g_details = Some (ascii ''Zarplata'')\<rparr>"
  by (simp add: sample_defs string_defs char_defs)

lemma strptime_income: "strptime DMY4 (ascii ''18.12.2025'') = Some \<lparr>year = 2025, month = 12, day = 18\<rparr>"
  by (simp add: date_defs string_defs char_defs)

lemma to_decimal_income: "to_decimal (ascii ''+1000,00'') = Inr \<lparr>dneg = False, dcoeff = 100000, dexp = - 2\<rparr>"
  by (simp add: decimal_defs string_defs char_defs)

lemma no_minus_income: "\<not> starts_with_minus (ascii ''+1000,00'')"
  by (simp add: starts_with_minus_def string_defs char_defs)

lemma known_operation_dohod: "known_operation sample_env (ascii ''Dohod'') = POKUPKA"
  by (simp add: known_operation_def sample_env_fields basic_capitalize_def basic_upper_cp_def
      basic_lower_cp_def PEREVOD_def POKUPKA_def ascii_def)

lemma parse_head_income:
  "parse_head sample_env (ascii ''18.12.2025 +1000,00 KZT Dohod Zarplata'') =
     Inr (Some
       \<lparr>tx_date = \<lparr>year = 2025, month = 12, day = 18\<rparr>,
        tx_amount = \<lparr>dneg = False, dcoeff = 100000, dexp = - 2\<rparr>,
        tx_currency = ascii ''KZT'', tx_operation = POKUPKA,
        tx_description = ascii ''Zarplata'', tx_direction = Expense,
        tx_transfer_type = None, tx_source = None\<rparr>)"
  by (simp add: parse_head_def sample_head_income strptime_income to_decimal_income
      no_minus_income known_operation_dohod sample_env_fields)

text \<open>
  Claim C2: the direction of every record emitted by any extractor is the sign function
  of its amount. \<open>freedom_parser\<close> and \<open>kaspi_parser\<close> compute it so
  (\<open>parse_freedom_pdf_direction\<close>, \<open>kaspi_pages_direction\<close>); \<open>parser._parse_head\<close>
  writes the literal \<open>"expense"\<close>: the head line
  \<open>18.12.2025 +1000,00 KZT Dohod Zarplata\<close> gives a record of amount 1000.00 and
  direction expense, where the sign function gives income.
\<close>

theorem parse_head_direction_is_constant:
  "parse_head sample_env (ascii ''18.12.2025 +1000,00 KZT Dohod Zarplata'') =
     Inr (Some
       \<lparr>tx_date = \<lparr>year = 2025, month = 12, day = 18\<rparr>,
        tx_amount = \<lparr>dneg = False, dcoeff = 100000, dexp = - 2\<rparr>,
        tx_currency = ascii ''KZT'', tx_operation = POKUPKA,
        tx_description = ascii ''Zarplata'', tx_direction = Expense,
        tx_transfer_type = None, tx_source = None\<rparr>) \<and>
   direction_of \<lparr>dneg = False, dcoeff = 100000, dexp = - 2\<rparr> = Income"
  using parse_head_income by (simp add: direction_of_def dec_lt0_def dec_gt0_def)

section \<open>The sign of the amount\<close>

lemma parse_head_line_amount:
  "parse_head_line E line = Inr (Some t) \<Longrightarrow>
     \<exists>m a. TX_HEAD_RE E line = Some m \<and> to_decimal (g_amount m) = Inr a \<and>
       tx_amount t = (if starts_with_minus (g_amount m) then dec_neg (dec_abs a) else dec_abs a)"
  by (auto simp: parse_head_line_def Let_def split: option.splits sum.splits)

lemma parse_head_line_amount_value:
  "parse_head_line E line = Inr (Some t) \<Longrightarrow>
     \<exists>m a. TX_HEAD_RE E line = Some m \<and> to_decimal (g_amount m) = Inr a \<and>
       dec_value (tx_amount t) =
         (if starts_with_minus (g_amount m) then - \<bar>dec_value a\<bar> else \<bar>dec_value a\<bar>)"
  by (auto simp: dec_neg_value dec_abs_value dest!: parse_head_line_amount)

lemma parse_head_amount:
  "parse_head E line = Inr (Some t) \<Longrightarrow>
     \<exists>m a. TX_HEAD_RE E line = Some m \<and> to_decimal (g_amount m) = Inr a \<and>
       tx_amount t = (if starts_with_minus (g_amount m) then dec_neg (dec_abs a) else a)"
  by (auto simp: parse_head_def Let_def split: option.splits sum.splits)


lemma strptime_inner_minus: "strptime DMY4 (ascii ''17.12.2025'') = Some \<lparr>year = 2025, month = 12, day = 17\<rparr>"
  by (simp add: date_defs string_defs char_defs)




section \<open>Format B: the carried column indices\<close>

lemma kaspi_rows_append:
  "kaspi_rows E c (xs @ ys) =
     (case kaspi_rows E c xs of (c1, txs1) \<Rightarrow>
        case kaspi_rows E c1 ys of (c2, txs2) \<Rightarrow> (c2, txs1 @ txs2))"
  by (induction xs arbitrary: c) (simp_all add: split_beta)


lemma kaspi_row_header:
  "looks_like_header E (normalize_row raw) \<Longrightarrow>
     kaspi_row E c raw = (learn_header E 0 (normalize_row raw) c, [])"
  by (simp add: kaspi_row_def Let_def)





text \<open>The sample rows, evaluated.\<close>

lemma norm_header: "normalize_row HEADER_ROW =
     [[1044, 1072, 1090, 1072], [1057, 1091, 1084, 1084, 1072],
      [1054, 1087, 1077, 1088, 1072, 1094, 1080, 1103], [1044, 1077, 1090, 1072, 1083, 1080]]"
  by (simp add: normalize_row_def HEADER_ROW_def strip_def is_space_def)

lemma header_is_header: "looks_like_header sample_env (normalize_row HEADER_ROW)"
  by (simp add: norm_header looks_like_header_def sample_env_fields basic_lower_def
      basic_lower_cp_def py_in_def DATA_def SUMM_def OPERATS_def char_defs)

lemma header_learnt: "learn_header sample_env 0 (normalize_row HEADER_ROW) no_cols = ALL_COLS"
  by (simp add: norm_header learn_cell_def sample_env_fields basic_lower_def
      basic_lower_cp_def py_in_def DATA_def SUMM_def OPERATS_def DETAL_def no_cols_def ALL_COLS_def)

lemma norm_row_a: "normalize_row ROW_A =
  [ascii ''17.12.25'', ascii ''-2 880,00 '' @ [TENGE], ascii ''pokupka'', ascii ''Magnum  shop'']"
  by (simp add: normalize_row_def ROW_A_def strip_def is_space_def ascii_def char_defs)

lemma row_a_not_header: "\<not> looks_like_header sample_env (normalize_row ROW_A)"
  by (simp add: norm_row_a looks_like_header_def sample_env_fields basic_lower_def
      basic_lower_cp_def py_in_def DATA_def SUMM_def OPERATS_def char_defs ascii_def)

lemma row_a_tx: "looks_like_transaction_row (normalize_row ROW_A)"
  by (simp add: norm_row_a looks_like_transaction_row_def date_prefix_def strip_def is_space_def
      is_digit_def ascii_def char_defs)

lemma row_a_date: "parse_date (ascii ''17.12.25'') = Some \<lparr>year = 2025, month = 12, day = 17\<rparr>"
  by (simp add: parse_date_def date_defs string_defs char_defs)

lemma row_a_amount:
  "parse_amount (ascii ''-2 880,00 '' @ [TENGE]) = Inr \<lparr>dneg = True, dcoeff = 288000, dexp = - 2\<rparr>"
  by (simp add: decimal_defs string_defs char_defs)

lemma row_a_desc: "clean_description sample_env (ascii ''Magnum  shop'') = ascii ''Magnum shop''"
  by (simp add: clean_description_def strip_footer_def sample_env_fields string_defs char_defs)

lemma row_a_cap: "basic_capitalize (ascii ''pokupka'') = ascii ''Pokupka''"
  by (simp add: basic_capitalize_def basic_upper_cp_def basic_lower_cp_def ascii_def)

lemma row_a_decode: "decode_row sample_env 0 1 2 (Some 3) (normalize_row ROW_A) = Inr (Some TX_A)"
  by (simp add: decode_row_def getitem_def norm_row_a row_a_date row_a_amount row_a_desc row_a_cap
      sample_env_fields TX_A_def direction_of_def dec_lt0_def)

lemma row_a_result: "kaspi_row sample_env ALL_COLS ROW_A = (ALL_COLS, [TX_A])"
  using row_a_decode by (simp add: kaspi_row_def row_a_not_header row_a_tx ALL_COLS_def)

lemma norm_row_b: "normalize_row ROW_B =
  [ascii ''18.12.25'', ascii ''+3 000,00 '' @ [TENGE], ascii ''popolnenie'', []]"
  by (simp add: normalize_row_def ROW_B_def strip_def is_space_def ascii_def char_defs)

lemma row_b_not_header: "\<not> looks_like_header sample_env (normalize_row ROW_B)"
  by (simp add: norm_row_b looks_like_header_def sample_env_fields basic_lower_def
      basic_lower_cp_def py_in_def DATA_def SUMM_def OPERATS_def char_defs ascii_def)

lemma row_b_tx: "looks_like_transaction_row (normalize_row ROW_B)"
  by (simp add: norm_row_b looks_like_transaction_row_def date_prefix_def strip_def is_space_def
      is_digit_def ascii_def char_defs)

lemma row_b_date: "parse_date (ascii ''18.12.25'') = Some \<lparr>year = 2025, month = 12, day = 18\<rparr>"
  by (simp add: parse_date_def date_defs string_defs char_defs)

lemma row_b_amount:
  "parse_amount (ascii ''+3 000,00 '' @ [TENGE]) = Inr \<lparr>dneg = False, dcoeff = 300000, dexp = - 2\<rparr>"
  by (simp add: decimal_defs string_defs char_defs)

lemma empty_desc: "clean_description sample_env [] = []"
  by (simp add: clean_description_def strip_footer_def sample_env_fields strip_def)

lemma row_b_cap: "basic_capitalize (ascii ''popolnenie'') = ascii ''Popolnenie''"
  by (simp add: basic_capitalize_def basic_upper_cp_def basic_lower_cp_def ascii_def)

lemma row_b_decode: "decode_row sample_env 0 1 2 (Some 3) (normalize_row ROW_B) = Inr (Some TX_B)"
  by (simp add: decode_row_def getitem_def norm_row_b row_b_date row_b_amount empty_desc row_b_cap
      sample_env_fields TX_B_def direction_of_def dec_lt0_def dec_gt0_def)

lemma row_b_result: "kaspi_row sample_env ALL_COLS ROW_B = (ALL_COLS, [TX_B])"
  using row_b_decode by (simp add: kaspi_row_def row_b_not_header row_b_tx ALL_COLS_def)

lemma header_result: "kaspi_row sample_env no_cols HEADER_ROW = (ALL_COLS, [])"
  by (simp add: kaspi_row_def header_is_header header_learnt)

lemma norm_row_bad: "normalize_row ROW_BAD_AMOUNT =
  [ascii ''19.12.25'', ascii ''-'', ascii ''x'', []]"
  by (simp add: normalize_row_def ROW_BAD_AMOUNT_def strip_def is_space_def ascii_def char_defs)

lemma row_bad_not_header: "\<not> looks_like_header sample_env (normalize_row ROW_BAD_AMOUNT)"
  by (simp add: norm_row_bad looks_like_header_def sample_env_fields basic_lower_def
      basic_lower_cp_def py_in_def DATA_def SUMM_def OPERATS_def char_defs ascii_def)

lemma row_bad_date: "parse_date (ascii ''19.12.25'') = Some \<lparr>year = 2025, month = 12, day = 19\<rparr>"
  by (simp add: parse_date_def date_defs string_defs char_defs)

lemma row_bad_amount: "parse_amount (ascii ''-'') = Inl InvalidOperation"
  by (simp add: decimal_defs string_defs char_defs)

lemma row_bad_decode:
  "decode_row sample_env 0 1 2 (Some 3) (normalize_row ROW_BAD_AMOUNT) = Inl InvalidOperation"
  by (simp add: decode_row_def getitem_def norm_row_bad row_bad_date row_bad_amount)

lemma norm_row_short: "normalize_row ROW_SHORT = [ascii ''19.12.25'']"
  by (simp add: normalize_row_def ROW_SHORT_def strip_def is_space_def ascii_def char_defs)

lemma row_short_not_header: "\<not> looks_like_header sample_env (normalize_row ROW_SHORT)"
  by (simp add: norm_row_short looks_like_header_def sample_env_fields basic_lower_def
      basic_lower_cp_def py_in_def DATA_def SUMM_def OPERATS_def char_defs ascii_def)

lemma row_short_decode:
  "decode_row sample_env 0 1 2 (Some 3) (normalize_row ROW_SHORT) = Inl IndexError"
  by (simp add: decode_row_def getitem_def norm_row_short row_bad_date)



text \<open>
  Claim C8: when the decoding of a row raises, whatever the exception, the row leaves
  the column indices unchanged and adds no record, and the table and the document give
  what they give without that row: the rows after it and the later pages are processed
  as if it were absent.
\<close>

theorem raising_row_is_skipped:
  assumes "kaspi_rows E c0 pre = (c, txs0)"
    and "\<not> looks_like_header E (normalize_row raw)"
    and "idx_date c = Some i_date" "idx_amount c = Some i_amount"
    and "idx_operation c = Some i_operation"
    and "decode_row E i_date i_amount i_operation (idx_details c) (normalize_row raw) = Inl e"
  shows "kaspi_row E c raw = (c, []) \<and>
    kaspi_rows E c0 (pre @ raw # post) = kaspi_rows E c0 (pre @ post) \<and>
    kaspi_pages E c0 (Some (pre @ raw # post) # pgs) = kaspi_pages E c0 (Some (pre @ post) # pgs)"
proof -
  from assms(2-6) have r: "kaspi_row E c raw = (c, [])"
    by (simp add: kaspi_row_def Let_def)
  then have "kaspi_rows E c (raw # post) = kaspi_rows E c post"
    by (simp add: split_beta)
  with assms(1) have "kaspi_rows E c0 (pre @ raw # post) = kaspi_rows E c0 (pre @ post)"
    by (simp add: kaspi_rows_append)
  with r show ?thesis by simp
qed

theorem raising_row_is_skipped_witness:
  "kaspi_rows sample_env no_cols [HEADER_ROW, ROW_A] = (ALL_COLS, [TX_A]) \<and>
   \<not> looks_like_header sample_env (normalize_row ROW_BAD_AMOUNT) \<and>
   decode_row sample_env 0 1 2 (idx_details ALL_COLS) (normalize_row ROW_BAD_AMOUNT) =
     Inl InvalidOperation \<and>
   kaspi_row sample_env ALL_COLS ROW_BAD_AMOUNT = (ALL_COLS, []) \<and>
   parse_kaspi_pdf sample_env [Some [HEADER_ROW, ROW_A, ROW_BAD_AMOUNT, ROW_B], Some [ROW_A]] =
     [TX_A, TX_B, TX_A]"
proof -
  have pre: "kaspi_rows sample_env no_cols [HEADER_ROW, ROW_A] = (ALL_COLS, [TX_A])"
    by (simp add: header_result row_a_result)
  have d: "decode_row sample_env 0 1 2 (idx_details ALL_COLS) (normalize_row ROW_BAD_AMOUNT) =
      Inl InvalidOperation"
    using row_bad_decode by (simp add: ALL_COLS_def)
  have c: "idx_date ALL_COLS = Some 0" "idx_amount ALL_COLS = Some 1" "idx_operation ALL_COLS = Some 2"
    by (simp_all add: ALL_COLS_def)
  from raising_row_is_skipped [OF pre row_bad_not_header c d, of "[ROW_B]" "[Some [ROW_A]]"]
  have s: "kaspi_row sample_env ALL_COLS ROW_BAD_AMOUNT = (ALL_COLS, [])"
    and e: "kaspi_pages sample_env no_cols (Some ([HEADER_ROW, ROW_A] @ ROW_BAD_AMOUNT # [ROW_B]) # [Some [ROW_A]]) =
      kaspi_pages sample_env no_cols (Some ([HEADER_ROW, ROW_A] @ [ROW_B]) # [Some [ROW_A]])"
    by simp_all
  have "kaspi_pages sample_env no_cols (Some ([HEADER_ROW, ROW_A] @ [ROW_B]) # [Some [ROW_A]]) =
      (ALL_COLS, [TX_A, TX_B, TX_A])"
    by (simp add: header_result row_a_result row_b_result)
  with e have "parse_kaspi_pdf sample_env [Some [HEADER_ROW, ROW_A, ROW_BAD_AMOUNT, ROW_B], Some [ROW_A]] =
     [TX_A, TX_B, TX_A]"
    by (simp add: parse_kaspi_pdf_def)
  with pre row_bad_not_header d s show ?thesis by blast
qed

lemma learn_cell_keeps:
  "\<not> py_in DATA (str_lower E cell) \<Longrightarrow> idx_date (learn_cell E i cell c) = idx_date c"
  "\<not> py_in SUMM (str_lower E cell) \<Longrightarrow> idx_amount (learn_cell E i cell c) = idx_amount c"
  "\<not> py_in OPERATS (str_lower E cell) \<Longrightarrow> idx_operation (learn_cell E i cell c) = idx_operation c"
  "\<not> py_in DETAL (str_lower E cell) \<Longrightarrow> idx_details (learn_cell E i cell c) = idx_details c"
  by (simp_all add: learn_cell_def Let_def)

lemma learn_header_keeps_date:
  "\<forall>cell\<in>set row. \<not> py_in DATA (str_lower E cell) \<Longrightarrow>
     idx_date (learn_header E i row c) = idx_date c"
  by (induction row arbitrary: i c) (simp_all add: learn_cell_keeps)

lemma learn_header_keeps_amount:
  "\<forall>cell\<in>set row. \<not> py_in SUMM (str_lower E cell) \<Longrightarrow>
     idx_amount (learn_header E i row c) = idx_amount c"
  by (induction row arbitrary: i c) (simp_all add: learn_cell_keeps)

lemma learn_header_keeps_operation:
  "\<forall>cell\<in>set row. \<not> py_in OPERATS (str_lower E cell) \<Longrightarrow>
     idx_operation (learn_header E i row c) = idx_operation c"
  by (induction row arbitrary: i c) (simp_all add: learn_cell_keeps)

lemma learn_header_keeps_details:
  "\<forall>cell\<in>set row. \<not> py_in DETAL (str_lower E cell) \<Longrightarrow>
     idx_details (learn_header E i row c) = idx_details c"
  by (induction row arbitrary: i c) (simp_all add: learn_cell_keeps)

lemma norm_header_short: "normalize_row HEADER_ROW_SHORT =
     [[1054, 1087, 1077, 1088, 1072, 1094, 1080, 1103], [1044, 1072, 1090, 1072],
      [1057, 1091, 1084, 1084, 1072]]"
  by (simp add: normalize_row_def HEADER_ROW_SHORT_def strip_def is_space_def)

lemma header_short_is_header: "looks_like_header sample_env (normalize_row HEADER_ROW_SHORT)"
  by (simp add: norm_header_short looks_like_header_def sample_env_fields basic_lower_def
      basic_lower_cp_def py_in_def DATA_def SUMM_def OPERATS_def char_defs)

lemma header_short_no_details:
  "list_all (\<lambda>cell. \<not> py_in DETAL (str_lower sample_env cell)) (normalize_row HEADER_ROW_SHORT)"
  by (simp add: norm_header_short sample_env_fields basic_lower_def basic_lower_cp_def py_in_def
      DETAL_def)

lemma header_short_learnt:
  "learn_header sample_env 0 (normalize_row HEADER_ROW_SHORT) ALL_COLS =
     \<lparr>idx_date = Some 1, idx_amount = Some 2, idx_operation = Some 0, idx_details = Some 3\<rparr>"
  by (simp add: norm_header_short learn_cell_def sample_env_fields basic_lower_def
      basic_lower_cp_def py_in_def DATA_def SUMM_def OPERATS_def DETAL_def ALL_COLS_def)

lemma row_a_no_indicator:
  "list_all (\<lambda>cell. \<not> py_in DATA (str_lower sample_env cell) \<and>
      \<not> py_in SUMM (str_lower sample_env cell) \<and> \<not> py_in OPERATS (str_lower sample_env cell))
     (normalize_row ROW_A)"
  by (simp add: norm_row_a sample_env_fields basic_lower_def basic_lower_cp_def py_in_def
      DATA_def SUMM_def OPERATS_def ascii_def char_defs)

text \<open>
  Claim C10: a header row sets the indices by the scan \<open>learn_header\<close> of its cells,
  and the scan leaves an index as it was when no cell of the row holds its indicator
  (in lower case): the date, amount, operation and details indices alike. So an index
  the scan changes has its indicator in some cell, and a details index learnt from an
  earlier header survives a header row without a details cell.
\<close>

theorem header_keeps_absent_indices:
  "(looks_like_header E (normalize_row raw) \<longrightarrow>
      fst (kaspi_row E c raw) = learn_header E 0 (normalize_row raw) c) \<and>
   ((\<forall>cell\<in>set row. \<not> py_in DATA (str_lower E cell)) \<longrightarrow>
      idx_date (learn_header E i row c) = idx_date c) \<and>
   ((\<forall>cell\<in>set row. \<not> py_in SUMM (str_lower E cell)) \<longrightarrow>
      idx_amount (learn_header E i row c) = idx_amount c) \<and>
   ((\<forall>cell\<in>set row. \<not> py_in OPERATS (str_lower E cell)) \<longrightarrow>
      idx_operation (learn_header E i row c) = idx_operation c) \<and>
   ((\<forall>cell\<in>set row. \<not> py_in DETAL (str_lower E cell)) \<longrightarrow>
      idx_details (learn_header E i row c) = idx_details c)"
  using kaspi_row_header [of E raw c] learn_header_keeps_date [of row E i c]
    learn_header_keeps_amount [of row E i c] learn_header_keeps_operation [of row E i c]
    learn_header_keeps_details [of row E i c]
  by simp

theorem header_keeps_absent_indices_witness:
  "looks_like_header sample_env (normalize_row HEADER_ROW_SHORT) \<and>
   list_all (\<lambda>cell. \<not> py_in DETAL (str_lower sample_env cell)) (normalize_row HEADER_ROW_SHORT) \<and>
   fst (kaspi_row sample_env ALL_COLS HEADER_ROW_SHORT) =
     \<lparr>idx_date = Some 1, idx_amount = Some 2, idx_operation = Some 0, idx_details = Some 3\<rparr> \<and>
   idx_details (learn_header sample_env 0 (normalize_row HEADER_ROW_SHORT) ALL_COLS) = Some 3 \<and>
   idx_date (learn_header sample_env 0 (normalize_row ROW_A) ALL_COLS) = Some 0 \<and>
   idx_amount (learn_header sample_env 0 (normalize_row ROW_A) ALL_COLS) = Some 1 \<and>
   idx_operation (learn_header sample_env 0 (normalize_row ROW_A) ALL_COLS) = Some 2"
proof -
  note t1 = header_keeps_absent_indices [where E = sample_env and raw = HEADER_ROW_SHORT
      and c = ALL_COLS and row = "normalize_row HEADER_ROW_SHORT" and i = 0]
  note t2 = header_keeps_absent_indices [where E = sample_env and raw = HEADER_ROW_SHORT
      and c = ALL_COLS and row = "normalize_row ROW_A" and i = 0]
  from t1 header_short_is_header header_short_learnt
  have k: "fst (kaspi_row sample_env ALL_COLS HEADER_ROW_SHORT) =
     \<lparr>idx_date = Some 1, idx_amount = Some 2, idx_operation = Some 0, idx_details = Some 3\<rparr>"
    by simp
  from t1 header_short_no_details
  have d: "idx_details (learn_header sample_env 0 (normalize_row HEADER_ROW_SHORT) ALL_COLS) = Some 3"
    by (simp add: list_all_iff ALL_COLS_def)
  from t2 row_a_no_indicator
  have o: "idx_date (learn_header sample_env 0 (normalize_row ROW_A) ALL_COLS) = Some 0 \<and>
    idx_amount (learn_header sample_env 0 (normalize_row ROW_A) ALL_COLS) = Some 1 \<and>
    idx_operation (learn_header sample_env 0 (normalize_row ROW_A) ALL_COLS) = Some 2"
    by (simp add: list_all_iff ALL_COLS_def)
  from header_short_is_header header_short_no_details k d o show ?thesis by blast
qed

section \<open>The operation label\<close>

lemma parse_head_line_operation:
  "parse_head_line E line = Inr (Some t) \<Longrightarrow>
     \<exists>m. TX_HEAD_RE E line = Some m \<and> tx_operation t = known_operation E (g_operation m)"
  by (auto simp: parse_head_line_def Let_def split: option.splits sum.splits)

lemma parse_head_operation:
  "parse_head E line = Inr (Some t) \<Longrightarrow>
     \<exists>m. TX_HEAD_RE E line = Some m \<and> tx_operation t = known_operation E (g_operation m)"
  by (auto simp: parse_head_def Let_def split: option.splits sum.splits)

lemma known_operation_closed:
  "known_operation E token \<in> set (KNOWN_OPERATIONS E) \<union> {POKUPKA}"
  by (simp add: known_operation_def Let_def)

lemma parse_freedom_pdf_operation:
  assumes "parse_freedom_pdf E pgs = Inr txs"
  shows "list_all (\<lambda>t. tx_operation t \<in> set (KNOWN_OPERATIONS E) \<union> {POKUPKA}) txs"
proof -
  let ?P = "\<lambda>t. tx_operation t \<in> set (KNOWN_OPERATIONS E) \<union> {POKUPKA}"
  from assms obtain txs0 where p: "pages_loop (parse_page E) pgs = Inr txs0"
    and t: "txs = map (\<lambda>t. t\<lparr>tx_source := Some Freedom\<rparr>) txs0"
    by (auto simp: parse_freedom_pdf_def split: sum.splits)
  have h: "?P t" if "parse_head_line E line = Inr (Some t)" for line t
  proof -
    from parse_head_line_operation [OF that] obtain m :: head_match where
      "tx_operation t = known_operation E (g_operation m)" by blast
    with known_operation_closed [of E "g_operation m"] show ?thesis by simp
  qed
  have "list_all ?P ys" if "parse_page E ls = Inr ys" for ls ys
    using that page_loop_all [of "parse_head_line E" ?P "([], None)" E ls ys] h
    by (simp add: parse_page_def)
  with p have "list_all ?P txs0"
    by (rule_tac pages_loop_all)
  with t show ?thesis by (simp add: list_all_iff)
qed

lemma decode_row_operation:
  "decode_row E i_date i_amount i_operation i_details row = Inr (Some t) \<Longrightarrow>
     i_operation < length row \<and> tx_operation t = str_capitalize E (row ! i_operation)"
  by (auto simp: decode_row_def getitem_def split: option.splits sum.splits if_splits)

lemma sample_head_known:
  "sample_tx_head (ascii ''17.12.2025 -500,00 KZT '' @ [1087, 1077, 1088, 1077, 1074, 1086, 1076]) =
     Some \<lparr>g_date = ascii ''17.12.2025'', g_amount = ascii ''-500,00'', g_currency = ascii ''KZT'',
       g_operation = [1087, 1077, 1088, 1077, 1074, 1086, 1076], g_details = None\<rparr>"
  by (simp add: sample_defs string_defs char_defs)

lemma to_decimal_known: "to_decimal (ascii ''-500,00'') = Inr \<lparr>dneg = True, dcoeff = 50000, dexp = - 2\<rparr>"
  by (simp add: decimal_defs string_defs char_defs)

lemma capitalize_known: "basic_capitalize [1087, 1077, 1088, 1077, 1074, 1086, 1076] = PEREVOD"
  by (simp add: basic_capitalize_def basic_upper_cp_def basic_lower_cp_def PEREVOD_def)

lemma capitalize_dohod: "basic_capitalize (ascii ''Dohod'') = ascii ''Dohod''"
  by (simp add: basic_capitalize_def basic_upper_cp_def basic_lower_cp_def ascii_def)

lemma dohod_unknown: "ascii ''Dohod'' \<notin> set (KNOWN_OPERATIONS sample_env)"
  by (simp add: sample_env_fields PEREVOD_def POKUPKA_def ascii_def)

lemma minus_known: "starts_with_minus (ascii ''-500,00'')"
  by (simp add: starts_with_minus_def ascii_def char_defs)

lemma known_operation_perevod:
  "known_operation sample_env [1087, 1077, 1088, 1077, 1074, 1086, 1076] = PEREVOD"
  by (simp add: known_operation_def capitalize_known sample_env_fields)

lemma parse_head_line_known:
  "parse_head_line sample_env (ascii ''17.12.2025 -500,00 KZT '' @ [1087, 1077, 1088, 1077, 1074, 1086, 1076]) =
     Inr (Some
       \<lparr>tx_date = \<lparr>year = 2025, month = 12, day = 17\<rparr>,
        tx_amount = \<lparr>dneg = True, dcoeff = 50000, dexp = - 2\<rparr>,
        tx_currency = ascii ''KZT'', tx_operation = PEREVOD,
        tx_description = [], tx_direction = Expense,
        tx_transfer_type = None, tx_source = None\<rparr>)"
  by (simp add: parse_head_line_def sample_head_known strptime_inner_minus to_decimal_known
      known_operation_perevod minus_known sample_env_fields direction_of_def dec_lt0_def
      dec_neg_def dec_abs_def)

lemma parse_head_line_unknown:
  "parse_head_line sample_env (ascii ''18.12.2025 +1000,00 KZT Dohod Zarplata'') =
     Inr (Some
       \<lparr>tx_date = \<lparr>year = 2025, month = 12, day = 18\<rparr>,
        tx_amount = \<lparr>dneg = False, dcoeff = 100000, dexp = - 2\<rparr>,
        tx_currency = ascii ''KZT'', tx_operation = POKUPKA,
        tx_description = ascii ''Zarplata'', tx_direction = Income,
        tx_transfer_type = None, tx_source = None\<rparr>)"
  by (simp add: parse_head_line_def sample_head_income strptime_income to_decimal_income
      no_minus_income known_operation_dohod sample_env_fields direction_of_def dec_lt0_def
      dec_gt0_def dec_abs_def)

text \<open>
  Claim C9: in format A (both head-line decoders) the emitted operation is the
  capitalized token when it is a member of \<open>KNOWN_OPERATIONS\<close> and the default label
  otherwise, so every record of \<open>parse_freedom_pdf\<close> carries a member of the vocabulary
  or the default label; in format B the emitted operation is the capitalized cell of
  the operation column, with no test against the vocabulary.
\<close>

theorem operation_label_policy:
  "(parse_head_line E line = Inr (Some t) \<longrightarrow>
      (\<exists>m. TX_HEAD_RE E line = Some m \<and>
         tx_operation t =
           (if str_capitalize E (g_operation m) \<in> set (KNOWN_OPERATIONS E)
            then str_capitalize E (g_operation m) else POKUPKA))) \<and>
   (parse_head E line = Inr (Some t) \<longrightarrow>
      (\<exists>m. TX_HEAD_RE E line = Some m \<and>
         tx_operation t =
           (if str_capitalize E (g_operation m) \<in> set (KNOWN_OPERATIONS E)
            then str_capitalize E (g_operation m) else POKUPKA))) \<and>
   (parse_freedom_pdf E pgs = Inr txs \<longrightarrow>
      list_all (\<lambda>t. tx_operation t \<in> set (KNOWN_OPERATIONS E) \<union> {POKUPKA}) txs) \<and>
   (decode_row E i_date i_amount i_operation i_details row = Inr (Some t) \<longrightarrow>
      i_operation < length row \<and> tx_operation t = str_capitalize E (row ! i_operation))"
  using parse_head_line_operation [of E line t] parse_head_operation [of E line t]
    parse_freedom_pdf_operation [of E pgs txs]
    decode_row_operation [of E i_date i_amount i_operation i_details row t]
  by (simp add: known_operation_def Let_def)


theorem operation_label_policy_witness:
  "TX_HEAD_RE sample_env (ascii ''18.12.2025 +1000,00 KZT Dohod Zarplata'') =
     Some \<lparr>g_date = ascii ''18.12.2025'', g_amount = ascii ''+1000,00'', g_currency = ascii ''KZT'',
       g_operation = ascii ''Dohod'', g_details = Some (ascii ''Zarplata'')\<rparr> \<and>
   str_capitalize sample_env (ascii ''Dohod'') \<notin> set (KNOWN_OPERATIONS sample_env) \<and>
   map_sum id (map_option tx_operation)
     (parse_head_line sample_env (ascii ''18.12.2025 +1000,00 KZT Dohod Zarplata'')) =
     Inr (Some POKUPKA) \<and>
   map_sum id (map_option tx_operation)
     (parse_head sample_env (ascii ''18.12.2025 +1000,00 KZT Dohod Zarplata'')) =
     Inr (Some POKUPKA) \<and>
   str_capitalize sample_env [1087, 1077, 1088, 1077, 1074, 1086, 1076] \<in> set (KNOWN_OPERATIONS sample_env) \<and>
   map_sum id (map_option tx_operation)
     (parse_head_line sample_env
        (ascii ''17.12.2025 -500,00 KZT '' @ [1087, 1077, 1088, 1077, 1074, 1086, 1076])) =
     Inr (Some PEREVOD) \<and>
   decode_row sample_env 0 1 2 (Some 3) (normalize_row ROW_B) = Inr (Some TX_B) \<and>
   tx_operation TX_B = str_capitalize sample_env (normalize_row ROW_B ! 2) \<and>
   tx_operation TX_B \<notin> set (KNOWN_OPERATIONS sample_env) \<union> {POKUPKA}"
proof -
  let ?u = "ascii ''18.12.2025 +1000,00 KZT Dohod Zarplata''"
  let ?k = "ascii ''17.12.2025 -500,00 KZT '' @ [1087, 1077, 1088, 1077, 1074, 1086, 1076]"
  have h: "TX_HEAD_RE sample_env ?u =
     Some \<lparr>g_date = ascii ''18.12.2025'', g_amount = ascii ''+1000,00'', g_currency = ascii ''KZT'',
       g_operation = ascii ''Dohod'', g_details = Some (ascii ''Zarplata'')\<rparr>"
    by (simp add: sample_env_fields sample_head_income)
  have hk: "TX_HEAD_RE sample_env ?k =
     Some \<lparr>g_date = ascii ''17.12.2025'', g_amount = ascii ''-500,00'', g_currency = ascii ''KZT'',
       g_operation = [1087, 1077, 1088, 1077, 1074, 1086, 1076], g_details = None\<rparr>"
    by (simp add: sample_env_fields sample_head_known)
  have nu: "str_capitalize sample_env (ascii ''Dohod'') \<notin> set (KNOWN_OPERATIONS sample_env)"
    using dohod_unknown by (simp add: sample_env_fields capitalize_dohod)
  have kn: "str_capitalize sample_env [1087, 1077, 1088, 1077, 1074, 1086, 1076]
      \<in> set (KNOWN_OPERATIONS sample_env)"
    by (simp add: sample_env_fields capitalize_known)
  obtain t1 where t1: "parse_head_line sample_env ?u = Inr (Some t1)"
    using parse_head_line_unknown by blast
  obtain t2 where t2: "parse_head sample_env ?u = Inr (Some t2)"
    using parse_head_income by blast
  obtain t3 where t3: "parse_head_line sample_env ?k = Inr (Some t3)"
    using parse_head_line_known by blast
  from operation_label_policy [where E = sample_env and line = ?u and t = t1] t1 h nu
  have o1: "tx_operation t1 = POKUPKA" by auto
  from operation_label_policy [where E = sample_env and line = ?u and t = t2] t2 h nu
  have o2: "tx_operation t2 = POKUPKA" by auto
  from operation_label_policy [where E = sample_env and line = ?k and t = t3] t3 hk kn
  have o3: "tx_operation t3 = PEREVOD" by (auto simp: sample_env_fields capitalize_known)
  from operation_label_policy [where E = sample_env and i_date = 0 and i_amount = 1
      and i_operation = 2 and i_details = "Some 3" and row = "normalize_row ROW_B" and t = TX_B]
    row_b_decode
  have o4: "tx_operation TX_B = str_capitalize sample_env (normalize_row ROW_B ! 2)" by simp
  have o5: "tx_operation TX_B \<notin> set (KNOWN_OPERATIONS sample_env) \<union> {POKUPKA}"
    by (simp add: TX_B_def sample_env_fields PEREVOD_def POKUPKA_def ascii_def)
  from h nu kn t1 t2 t3 o1 o2 o3 o4 o5 row_b_decode show ?thesis by simp
qed

end
